theory Spec2Isabelle
  imports Main "HOL-Library.Word" "HOL-Library.Signed_Division"
begin

unbundle bit_operations_syntax

section \<open>Data model of \<^verbatim>\<open>AtomKokkos\<close> (\<^verbatim>\<open>src/KOKKOS/atom_kokkos.cpp\<close>)\<close>

text \<open>
  The two sides on which a field has a copy (\<^verbatim>\<open>ExecutionSpace\<close>), and the field groups,
  which the code passes around as \<^verbatim>\<open>unsigned int mask\<close>.
\<close>

datatype ExecutionSpace = Host | Device

type_synonym mask = "32 word"

text \<open>
  The built-in fields are the \<^verbatim>\<open>k_...\<close> members of the class.  The three that the
  modelled member functions name (\<^verbatim>\<open>k_x\<close>, \<^verbatim>\<open>k_special\<close>, \<^verbatim>\<open>k_dvector\<close>) have a
  constructor of their own; every other one is \<open>K_field\<close> with its label.
\<close>

datatype field = K_x | K_special | K_dvector | K_field string

text \<open>
  Modelled from the spec: the dual view behind each \<^verbatim>\<open>k_...\<close> member (the Kokkos
  \<^verbatim>\<open>DualView\<close> type is not among the sources).  The spec's Field: a host buffer and a
  device buffer of the same logical shape, and for each side the mark that it was modified.
  A buffer is a list of rows, a row a list of cells; a cell value is any type \<open>'v\<close> with a
  zero (the fill value of fresh storage).
\<close>

record 'v dual =
  h_view :: "'v list list"
  d_view :: "'v list list"
  modified_host :: bool
  modified_device :: bool

text \<open>
  The group constants of \<^verbatim>\<open>atom_masks.h\<close> that the code uses.  The header is not among
  the sources, so their values are parameters.
\<close>

record atom_masks =
  X_MASK :: mask
  SPECIAL_MASK :: mask
  DVECTOR_MASK :: mask
  ALL_MASK :: mask

text \<open>
  The four kind/shape index spaces of the custom fields: integer vector, real vector,
  integer array, real array.
\<close>

datatype space = IVector | DVector | IArray | DArray

text \<open>
  An extension collaborator with per-record data (a \<^verbatim>\<open>Fix\<close> listed in
  \<^verbatim>\<open>atom->extra_grow\<close>): its capability flag \<^verbatim>\<open>fix->sort_device\<close>, whether the
  \<^verbatim>\<open>dynamic_cast<KokkosBase*>\<close> of \<^verbatim>\<open>sort_device()\<close> succeeds on it, its own
  per-record array, and the custom fields of the registry that it has registered and
  holds, each by its space and the index that \<^verbatim>\<open>add_custom\<close> returned.
\<close>

record 'v Fix =
  fix_sort_device :: bool
  kokkos_base :: bool
  fix_array :: "'v list list"
  fix_custom :: "(space \<times> nat) list"

text \<open>
  The object and the environment its member functions read.  Counts (rows, columns, the
  four custom-field counters, which start at 0 and are only ever incremented, far below
  \<open>2^31\<close>) are \<open>nat\<close>; the flags, column numbers and indices that a caller passes are
  C \<^verbatim>\<open>int\<close>s, kept as \<open>int\<close>; time steps are \<^verbatim>\<open>bigint\<close>, kept as \<open>int\<close>.

  \<^item> \<open>field_mask\<close>, \<open>per_atom\<close>: the record-layout collaborator \<^verbatim>\<open>avecKK\<close>: the group
    bits of each field and whether the field is indexed by record;
  \<^item> \<open>auto_sync\<close>, \<open>kokkos_sort_classic\<close>: \<^verbatim>\<open>lmp->kokkos->auto_sync\<close>,
    \<^verbatim>\<open>lmp->kokkos->sort_classic\<close>;
  \<^item> \<open>box_change\<close>, \<open>triclinic\<close>, \<open>lamda2x_row\<close>, \<open>x2lamda_row\<close>: \<^verbatim>\<open>domain\<close>, with the
    two coordinate conversions as functions on one row of \<^verbatim>\<open>x\<close>;
  \<open>domain_bins\<close>: the bin counts that \<^verbatim>\<open>setup_sort_bins()\<close> derives from the box;
  \<^item> \<open>bin_of\<close>: the bin of a position for given \<^verbatim>\<open>max_bins\<close> (\<^verbatim>\<open>BinOp3DLAMMPS\<close>);
  \<^item> \<open>extra_grow\<close>: the fixes \<^verbatim>\<open>modify->fix[atom->extra_grow[iextra]]\<close>, for
    \<^verbatim>\<open>iextra\<close> from 0 below \<^verbatim>\<open>atom->nextra_grow\<close>;
  \<^item> \<open>me\<close>, \<open>warnings\<close>: \<^verbatim>\<open>comm->me\<close> and what \<^verbatim>\<open>error->warning\<close> has printed;
  \<^item> \<open>grow_pointers_calls\<close>: how often \<^verbatim>\<open>avec->grow_pointers()\<close> was called;
  \<^item> \<open>heap\<close>: the blocks that \<^verbatim>\<open>memory->create\<close> has handed out, by address (the
    position in the list); \<open>None\<close> where \<^verbatim>\<open>memory->destroy\<close> has released the block.  A
    block is the list of its rows, one row per record; the cells of a new block are
    uninitialised (\<open>None\<close>);
  \<^item> the custom-field registry: for each of the four kind/shape spaces a counter, the list
    of name slots and the list of storage slots, which hold pointers (\<open>None\<close> is the null
    pointer, or a slot that \<^verbatim>\<open>srealloc\<close> has added and nothing has written yet).  A
    slot of \<open>ivector\<close>, \<open>iarray\<close>, \<open>darray\<close> holds the address of a block of the heap.
    A slot of \<open>dvector\<close> points to a row of the host buffer of \<^verbatim>\<open>k_dvector\<close>.
\<close>

type_synonym 'v block = "'v option list list"

record 'v atom_kokkos =
  masks :: atom_masks
  field_mask :: "field \<Rightarrow> mask"
  per_atom :: "field \<Rightarrow> bool"
  auto_sync :: bool
  kokkos_sort_classic :: bool
  sort_classic :: bool
  views :: "field \<Rightarrow> 'v dual"
  nlocal :: nat
  nmax :: nat
  maxspecial :: nat
  nbins :: int
  nbinx :: int
  nbiny :: int
  nbinz :: int
  nextsort :: int
  ntimestep :: int
  sortfreq :: int
  box_change :: bool
  triclinic :: bool
  domain_bins :: "int \<times> int \<times> int"
  lamda2x_row :: "'v list \<Rightarrow> 'v list"
  x2lamda_row :: "'v list \<Rightarrow> 'v list"
  bin_of :: "int \<times> int \<times> int \<Rightarrow> 'v list \<Rightarrow> nat"
  extra_grow :: "'v Fix list"
  me :: int
  warnings :: "string list"
  grow_pointers_calls :: nat
  heap :: "'v block option list"
  nivector :: nat
  ivname :: "string option list"
  ivector :: "nat option list"
  ndvector :: nat
  dvname :: "string option list"
  dvector :: "nat option list"
  niarray :: nat
  ianame :: "string option list"
  iarray :: "nat option list"
  icols :: "int option list"
  ndarray :: nat
  daname :: "string option list"
  darray :: "nat option list"
  dcols :: "int option list"

section \<open>Dual-field store\<close>

text \<open>
  Modelled from the spec: \<^verbatim>\<open>avecKK->sync\<close> and \<^verbatim>\<open>avecKK->modified\<close> (class
  \<^verbatim>\<open>AtomVecKokkos\<close> is not among the sources).  Spec 4.1: sync ensures the target side's
  copy of every field in the group is authoritative; if the other side is marked modified
  for a field, the field is copied from the other side to the target side and the other
  side's mark is cleared.  modified marks the given side's copy of every field in the group.
\<close>

fun sync_view :: "ExecutionSpace \<Rightarrow> 'v dual \<Rightarrow> 'v dual" where
  "sync_view Host d =
     (if modified_device d then d\<lparr>h_view := d_view d, modified_device := False\<rparr> else d)"
| "sync_view Device d =
     (if modified_host d then d\<lparr>d_view := h_view d, modified_host := False\<rparr> else d)"

fun modify_view :: "ExecutionSpace \<Rightarrow> 'v dual \<Rightarrow> 'v dual" where
  "modify_view Host d = d\<lparr>modified_host := True\<rparr>"
| "modify_view Device d = d\<lparr>modified_device := True\<rparr>"

definition in_group :: "'v atom_kokkos \<Rightarrow> field \<Rightarrow> mask \<Rightarrow> bool" where
  "in_group st f m = (field_mask st f AND m \<noteq> 0)"

definition avec_sync :: "ExecutionSpace \<Rightarrow> mask \<Rightarrow> 'v atom_kokkos \<Rightarrow> 'v atom_kokkos" where
  "avec_sync space m st =
     st\<lparr>views := (\<lambda>f. if in_group st f m then sync_view space (views st f) else views st f)\<rparr>"

definition avec_modified :: "ExecutionSpace \<Rightarrow> mask \<Rightarrow> 'v atom_kokkos \<Rightarrow> 'v atom_kokkos" where
  "avec_modified space m st =
     st\<lparr>views := (\<lambda>f. if in_group st f m then modify_view space (views st f) else views st f)\<rparr>"

text \<open>\<^verbatim>\<open>AtomKokkos::sync\<close> and \<^verbatim>\<open>AtomKokkos::modified\<close>, lines 120-134.\<close>

definition sync :: "ExecutionSpace \<Rightarrow> mask \<Rightarrow> 'v atom_kokkos \<Rightarrow> 'v atom_kokkos" where
  "sync space m st =
     (let st1 = (if space = Device \<and> auto_sync st then avec_modified Host m st else st)
      in avec_sync space m st1)"

definition modified :: "ExecutionSpace \<Rightarrow> mask \<Rightarrow> 'v atom_kokkos \<Rightarrow> 'v atom_kokkos" where
  "modified space m st =
     (let st1 = avec_modified space m st
      in if space = Device \<and> auto_sync st1 then avec_sync Host m st1 else st1)"

text \<open>\<^verbatim>\<open>AtomKokkos::init\<close>, lines 111-116 (the part of \<^verbatim>\<open>Atom::init\<close> is not modelled).\<close>

definition init :: "'v atom_kokkos \<Rightarrow> 'v atom_kokkos" where
  "init st = st\<lparr>sort_classic := kokkos_sort_classic st\<rparr>"

section \<open>Capacity manager\<close>

text \<open>
  Modelled from the spec: \<^verbatim>\<open>memoryKK->destroy_kokkos\<close> and \<^verbatim>\<open>memoryKK->grow_kokkos\<close>
  (\<^verbatim>\<open>memory_kokkos.h\<close> is not among the sources).  Destroying frees the storage of both
  copies: the field is left with empty buffers and no mark.  Growing reallocates both host
  and device buffers to the new capacity, keeps the contents of the existing rows at their
  indices and zero-fills the new cells (spec 4.2).
\<close>

definition resize_row :: "nat \<Rightarrow> 'v::zero list \<Rightarrow> 'v list" where
  "resize_row n r = take n r @ replicate (n - length r) 0"

definition resize_buffer :: "nat \<Rightarrow> nat \<Rightarrow> 'v::zero list list \<Rightarrow> 'v list list" where
  "resize_buffer n1 n2 b =
     map (resize_row n2) (take n1 b) @ replicate (n1 - length b) (replicate n2 0)"

definition destroy_kokkos :: "field \<Rightarrow> 'v atom_kokkos \<Rightarrow> 'v atom_kokkos" where
  "destroy_kokkos f st =
     st\<lparr>views := (views st)
          (f := \<lparr>h_view = [], d_view = [], modified_host = False, modified_device = False\<rparr>)\<rparr>"

definition grow_kokkos ::
  "field \<Rightarrow> nat \<Rightarrow> nat \<Rightarrow> ('v::zero) atom_kokkos \<Rightarrow> 'v atom_kokkos" where
  "grow_kokkos f n1 n2 st =
     st\<lparr>views := (views st)
          (f := (views st f)\<lparr>h_view := resize_buffer n1 n2 (h_view (views st f)),
                             d_view := resize_buffer n1 n2 (d_view (views st f))\<rparr>)\<rparr>"

text \<open>
  Modelled from the spec: the raw row pointers that \<^verbatim>\<open>grow_kokkos\<close> hands back through
  its \<^verbatim>\<open>array\<close> argument.  A change of capacity invalidates the pointers obtained before
  (spec 5), so every slot is pointed at its row of the new host buffer.
\<close>

definition row_pointers :: "nat \<Rightarrow> nat \<Rightarrow> nat option list" where
  "row_pointers n1 n2 = (if n2 = 0 then replicate n1 None else map Some [0..<n1])"

text \<open>The notification \<^verbatim>\<open>avec->grow_pointers()\<close>, recorded by counting it.\<close>

definition grow_pointers :: "'v atom_kokkos \<Rightarrow> 'v atom_kokkos" where
  "grow_pointers st = st\<lparr>grow_pointers_calls := Suc (grow_pointers_calls st)\<rparr>"

text \<open>\<^verbatim>\<open>AtomKokkos::grow\<close>, lines 237-247.\<close>

definition grow :: "mask \<Rightarrow> ('v::zero) atom_kokkos \<Rightarrow> 'v atom_kokkos" where
  "grow m st =
     (if m AND SPECIAL_MASK (masks st) \<noteq> 0 then
        (let st1 = destroy_kokkos K_special st;
             st2 = sync Device m st1;
             st3 = modified Device m st2;
             st4 = grow_kokkos K_special (nmax st3) (maxspecial st3) st3;
             st5 = grow_pointers st4
         in sync Host m st5)
      else st)"

section \<open>Custom field registry\<close>

text \<open>
  \<^verbatim>\<open>memory->srealloc\<close> on an array of \<open>n\<close> slots: the slots that exist are kept, a new
  slot holds nothing yet.
\<close>

definition srealloc :: "'a option list \<Rightarrow> nat \<Rightarrow> 'a option list" where
  "srealloc xs n = take n xs @ replicate (n - length xs) None"

text \<open>
  Modelled from the spec: \<^verbatim>\<open>memory->create\<close> and \<^verbatim>\<open>memory->destroy\<close> (\<^verbatim>\<open>memory.h\<close> is
  not among the sources).  Spec 3 and 4.2: a custom field has backing storage of its own,
  which removing the field frees; integer and array fields are host-only.  The heap is the
  list of the blocks ever allocated, a block at its address, \<open>None\<close> once released.
  \<^verbatim>\<open>memory->create\<close> allocates a block of uninitialised cells at a fresh address and
  returns the address: a vector of \<open>n\<close> cells is \<open>n\<close> rows of one cell, an array \<open>n\<close> rows
  of \<open>cols\<close> cells.  \<^verbatim>\<open>memory->destroy\<close> releases the block at the address it is given
  and does nothing on a null pointer.  Neither touches the pointer variable of the caller
  beyond what the code writes out: \<^verbatim>\<open>create\<close> stores the address, and after
  \<^verbatim>\<open>destroy\<close> the code itself assigns the null pointer.
\<close>

definition create1 :: "nat \<Rightarrow> 'v block" where
  "create1 n = replicate n [None]"

definition create2 :: "nat \<Rightarrow> int \<Rightarrow> 'v block" where
  "create2 n cols = replicate n (replicate (nat cols) None)"

definition memory_create :: "'v block \<Rightarrow> 'v atom_kokkos \<Rightarrow> nat \<times> 'v atom_kokkos" where
  "memory_create b st = (length (heap st), st\<lparr>heap := heap st @ [Some b]\<rparr>)"

definition memory_destroy :: "nat option \<Rightarrow> 'v atom_kokkos \<Rightarrow> 'v atom_kokkos" where
  "memory_destroy ptr st =
     (case ptr of None \<Rightarrow> st | Some a \<Rightarrow> st\<lparr>heap := (heap st)[a := None]\<rparr>)"

text \<open>
  \<^verbatim>\<open>AtomKokkos::add_custom\<close>, lines 255-301.  The result is the returned \<^verbatim>\<open>index\<close>
  and the new state.  The local \<^verbatim>\<open>index\<close> is declared without a value and assigned in
  each of the four branches only: when none is taken the function returns it
  uninitialised, which is the result \<open>None\<close>.  The storage of a real vector is not a
  block of the heap: it is a row of \<^verbatim>\<open>k_dvector\<close>, which \<^verbatim>\<open>grow_kokkos\<close> enlarges.
\<close>

definition add_custom ::
  "string \<Rightarrow> int \<Rightarrow> int \<Rightarrow> ('v::zero) atom_kokkos \<Rightarrow> int option \<times> 'v atom_kokkos" where
  "add_custom name flag cols st =
     (if flag = 0 \<and> cols = 0 then
        (let index = nivector st; n = Suc (nivector st);
             st1 = st\<lparr>nivector := n,
                     ivname := (srealloc (ivname st) n)[index := Some name],
                     ivector := srealloc (ivector st) n\<rparr>;
             (a, st2) = memory_create (create1 (nmax st1)) st1
         in (Some (int index), st2\<lparr>ivector := (ivector st2)[index := Some a]\<rparr>))
      else if flag = 1 \<and> cols = 0 then
        (let index = ndvector st; n = Suc (ndvector st);
             st1 = st\<lparr>ndvector := n,
                     dvname := (srealloc (dvname st) n)[index := Some name],
                     dvector := srealloc (dvector st) n\<rparr>;
             st2 = sync Device (DVECTOR_MASK (masks st1)) st1;
             st3 = (grow_kokkos K_dvector (ndvector st2) (nmax st2) st2)
                     \<lparr>dvector := row_pointers (ndvector st2) (nmax st2)\<rparr>
         in (Some (int index), modified Device (DVECTOR_MASK (masks st3)) st3))
      else if flag = 0 \<and> cols \<noteq> 0 then
        (let index = niarray st; n = Suc (niarray st);
             st1 = st\<lparr>niarray := n,
                     ianame := (srealloc (ianame st) n)[index := Some name],
                     iarray := srealloc (iarray st) n\<rparr>;
             (a, st2) = memory_create (create2 (nmax st1) cols) st1
         in (Some (int index),
             st2\<lparr>iarray := (iarray st2)[index := Some a],
                 icols := (srealloc (icols st2) n)[index := Some cols]\<rparr>))
      else if flag = 1 \<and> cols \<noteq> 0 then
        (let index = ndarray st; n = Suc (ndarray st);
             st1 = st\<lparr>ndarray := n,
                     daname := (srealloc (daname st) n)[index := Some name],
                     darray := srealloc (darray st) n\<rparr>;
             (a, st2) = memory_create (create2 (nmax st1) cols) st1
         in (Some (int index),
             st2\<lparr>darray := (darray st2)[index := Some a],
                 dcols := (srealloc (dcols st2) n)[index := Some cols]\<rparr>))
      else (None, st))"

text \<open>
  \<^verbatim>\<open>AtomKokkos::remove_custom\<close>, lines 309-334.  The code does not check \<^verbatim>\<open>index\<close>:
  an index outside the slot lists is an access out of bounds, the result \<open>None\<close>.
  \<^verbatim>\<open>memory->destroy\<close> and \<^verbatim>\<open>delete[]\<close> accept a null pointer, so a slot may be removed
  twice.  Three branches call \<^verbatim>\<open>memory->destroy\<close> on the pointer of the slot and then
  null the slot; the real-vector branch (lines 317-320) only nulls the slot.
\<close>

definition in_range :: "int \<Rightarrow> 'a list \<Rightarrow> bool" where
  "in_range index xs = (0 \<le> index \<and> nat index < length xs)"

definition remove_custom ::
  "int \<Rightarrow> int \<Rightarrow> int \<Rightarrow> 'v atom_kokkos \<Rightarrow> 'v atom_kokkos option" where
  "remove_custom index flag cols st =
     (if flag = 0 \<and> cols = 0 then
        (if in_range index (ivector st) \<and> in_range index (ivname st)
         then (let st1 = memory_destroy (ivector st ! nat index) st
               in Some (st1\<lparr>ivector := (ivector st1)[nat index := None],
                           ivname := (ivname st1)[nat index := None]\<rparr>))
         else None)
      else if flag = 1 \<and> cols = 0 then
        (if in_range index (dvector st) \<and> in_range index (dvname st)
         then Some (st\<lparr>dvector := (dvector st)[nat index := None],
                        dvname := (dvname st)[nat index := None]\<rparr>)
         else None)
      else if flag = 0 \<and> cols \<noteq> 0 then
        (if in_range index (iarray st) \<and> in_range index (ianame st)
         then (let st1 = memory_destroy (iarray st ! nat index) st
               in Some (st1\<lparr>iarray := (iarray st1)[nat index := None],
                           ianame := (ianame st1)[nat index := None]\<rparr>))
         else None)
      else if flag = 1 \<and> cols \<noteq> 0 then
        (if in_range index (darray st) \<and> in_range index (daname st)
         then (let st1 = memory_destroy (darray st ! nat index) st
               in Some (st1\<lparr>darray := (darray st1)[nat index := None],
                           daname := (daname st1)[nat index := None]\<rparr>))
         else None)
      else Some st)"

section \<open>Spatial sort engine\<close>

text \<open>
  Line 190: the next time step at which to sort.  The division is the truncating division
  of C++; with \<^verbatim>\<open>sortfreq\<close> zero it is a division by zero, the result \<open>None\<close>.
\<close>

definition set_nextsort :: "'v atom_kokkos \<Rightarrow> 'v atom_kokkos option" where
  "set_nextsort st =
     (if sortfreq st = 0 then None
      else Some (st\<lparr>nextsort := (ntimestep st sdiv sortfreq st) * sortfreq st + sortfreq st\<rparr>))"

text \<open>
  Modelled from the spec: \<^verbatim>\<open>Atom::setup_sort_bins\<close> (\<^verbatim>\<open>atom.cpp\<close> is not among the
  sources).  Spec 4.3: the bin grid is recomputed from the bounding box and the target bin
  size, with at least one bin per axis; the bin count is the size of the grid.
\<close>

definition setup_sort_bins :: "'v atom_kokkos \<Rightarrow> 'v atom_kokkos" where
  "setup_sort_bins st =
     (case domain_bins st of (bx, by, bz) \<Rightarrow>
        st\<lparr>nbinx := max 1 bx, nbiny := max 1 by, nbinz := max 1 bz,
           nbins := max 1 bx * max 1 by * max 1 bz\<rparr>)"

text \<open>
  Modelled from the spec: \<^verbatim>\<open>Kokkos::BinSort\<close> (the Kokkos library is not among the
  sources).  Spec 4.3 (4): \<^verbatim>\<open>create_permute_vector\<close> produces a permutation that sorts
  the record indices of the range by bin index; how ties are broken is left open, here
  they keep their order.  Applying the sorter to an array puts at new index \<open>i\<close> the row
  that was at index \<open>permutation[i]\<close>; rows beyond the range stay.  The range is
  \<open>[0, n)\<close> as in line 214; an array shorter than the range is outside the contract of the
  sorter, and the statements below that read rows ask for \<open>n\<close> rows.
\<close>

definition create_permute_vector :: "('r \<Rightarrow> nat) \<Rightarrow> 'r list \<Rightarrow> nat \<Rightarrow> nat list" where
  "create_permute_vector binner keys n = sort_key (\<lambda>i. binner (keys ! i)) [0..<n]"

definition permute_rows :: "nat list \<Rightarrow> 'r list \<Rightarrow> 'r list" where
  "permute_rows p rows = map (\<lambda>i. rows ! i) p @ drop (length p) rows"

text \<open>
  A collaborator that rewrites the device copy of a field works under the contract of the
  store (spec 2 and 4.1): it asks for the group of the field on the device, rewrites the
  device buffer and declares the device side of the group modified.
\<close>

definition device_update ::
  "field \<Rightarrow> mask \<Rightarrow> ('v list list \<Rightarrow> 'v list list) \<Rightarrow> 'v atom_kokkos \<Rightarrow> 'v atom_kokkos" where
  "device_update f G g st =
     (let st1 = sync Device G st;
          st2 = st1\<lparr>views := (views st1)
                  (f := (views st1 f)\<lparr>d_view := g (d_view (views st1 f))\<rparr>)\<rparr>
      in modified Device G st2)"

text \<open>
  Modelled from the spec: \<^verbatim>\<open>domain->lamda2x\<close> and \<^verbatim>\<open>domain->x2lamda\<close> (class
  \<^verbatim>\<open>Domain\<close> is not among the sources).  Spec 4.3 (1), (6): the positions of the first
  \<open>n\<close> records are converted to absolute coordinates and back, on the device copy of
  \<^verbatim>\<open>x\<close>.  In the code the two conversions are floating-point arithmetic; here each is a
  function on a row, \<open>lamda2x_row\<close> and \<open>x2lamda_row\<close>, of which nothing is assumed.
\<close>

definition map_rows :: "('r \<Rightarrow> 'r) \<Rightarrow> nat \<Rightarrow> 'r list \<Rightarrow> 'r list" where
  "map_rows g n rows = map g (take n rows) @ drop n rows"

definition convert_x :: "('v list \<Rightarrow> 'v list) \<Rightarrow> nat \<Rightarrow> 'v atom_kokkos \<Rightarrow> 'v atom_kokkos" where
  "convert_x g n st = device_update K_x (X_MASK (masks st)) (map_rows g n) st"

definition lamda2x :: "nat \<Rightarrow> 'v atom_kokkos \<Rightarrow> 'v atom_kokkos" where
  "lamda2x n st = convert_x (lamda2x_row st) n st"

definition x2lamda :: "nat \<Rightarrow> 'v atom_kokkos \<Rightarrow> 'v atom_kokkos" where
  "x2lamda n st = convert_x (x2lamda_row st) n st"

text \<open>
  Modelled from the spec: \<^verbatim>\<open>avecKK->sort_kokkos\<close> (\<^verbatim>\<open>AtomVecKokkos\<close> is not among the
  sources).  Spec 4.3 (5): the record-layout collaborator applies the permutation to every
  built-in co-indexed field.  It works on the device copies under the contract of the
  store: it asks for all fields on the device, reorders them and declares the device side
  modified.
\<close>

definition avec_sort_kokkos :: "nat list \<Rightarrow> 'v atom_kokkos \<Rightarrow> 'v atom_kokkos" where
  "avec_sort_kokkos p st =
     (let st1 = sync Device (ALL_MASK (masks st)) st;
          st2 = st1\<lparr>views := (\<lambda>f. if per_atom st1 f
                                 then (views st1 f)\<lparr>d_view := permute_rows p (d_view (views st1 f))\<rparr>
                                 else views st1 f)\<rparr>
      in modified Device (ALL_MASK (masks st2)) st2)"

text \<open>
  The storage of the custom fields that an extension holds.  \<open>slots\<close> is the pointer list
  of a space, \<open>slot_at\<close> the pointer of one custom field (null when the index was never
  issued).  For an integer vector and the two kinds of array the pointer is the address of
  a block of the heap (\<open>fix_blocks\<close>), for a real vector it is a row of \<^verbatim>\<open>k_dvector\<close>
  (\<open>fix_rows\<close>).  \<open>apply_at g as xs\<close> applies \<open>g\<close> to the elements of \<open>xs\<close> at the
  positions \<open>as\<close>.
\<close>

fun slots :: "space \<Rightarrow> 'v atom_kokkos \<Rightarrow> nat option list" where
  "slots IVector st = ivector st"
| "slots DVector st = dvector st"
| "slots IArray st = iarray st"
| "slots DArray st = darray st"

definition slot_at :: "space \<Rightarrow> 'v atom_kokkos \<Rightarrow> nat \<Rightarrow> nat option" where
  "slot_at sp st j = (if j < length (slots sp st) then slots sp st ! j else None)"

definition fix_blocks :: "'v atom_kokkos \<Rightarrow> 'v Fix \<Rightarrow> nat list" where
  "fix_blocks st fx =
     List.map_filter (\<lambda>(sp, j). if sp = DVector then None else slot_at sp st j) (fix_custom fx)"

definition fix_rows :: "'v atom_kokkos \<Rightarrow> 'v Fix \<Rightarrow> nat list" where
  "fix_rows st fx =
     List.map_filter (\<lambda>(sp, j). if sp = DVector then slot_at sp st j else None) (fix_custom fx)"

definition apply_at :: "('a \<Rightarrow> 'a) \<Rightarrow> nat list \<Rightarrow> 'a list \<Rightarrow> 'a list" where
  "apply_at g as xs = map (\<lambda>(a, x). if a \<in> set as then g x else x) (zip [0..<length xs] xs)"

text \<open>
  Modelled from the spec: the \<^verbatim>\<open>sort_kokkos\<close> of a fix (\<^verbatim>\<open>KokkosBase\<close> and the fixes
  are not among the sources).  Spec 4.3 (5) and 6: each extension collaborator applies
  the same permutation, with the semantics of the built-in fields, to the per-record data
  it holds: its own array and its custom fields.  The blocks of its integer and array
  fields have no device copy and are reordered where they are; its real vectors are rows
  of \<^verbatim>\<open>k_dvector\<close>, reordered on the device under the contract of the store.  The
  result is the fix and the state after the call.
\<close>

definition sort_blocks :: "nat list \<Rightarrow> nat list \<Rightarrow> 'v atom_kokkos \<Rightarrow> 'v atom_kokkos" where
  "sort_blocks p as st = st\<lparr>heap := apply_at (map_option (permute_rows p)) as (heap st)\<rparr>"

definition fix_sort_kokkos ::
  "nat list \<Rightarrow> 'v Fix \<Rightarrow> 'v atom_kokkos \<Rightarrow> 'v Fix \<times> 'v atom_kokkos" where
  "fix_sort_kokkos p fx st =
     (let st1 = sort_blocks p (fix_blocks st fx) st;
          st2 = (if fix_rows st1 fx = [] then st1
                 else device_update K_dvector (DVECTOR_MASK (masks st1))
                        (apply_at (permute_rows p) (fix_rows st1 fx)) st1)
      in (fx\<lparr>fix_array := permute_rows p (fix_array fx)\<rparr>, st2))"

text \<open>
  The loop of lines 219-226 over the fixes with per-record arrays.  Each is cast to
  \<^verbatim>\<open>KokkosBase\<close> and called through the resulting pointer, with no check: on a fix that
  is no \<^verbatim>\<open>KokkosBase\<close> the cast gives a null pointer and the call fails, the result
  \<open>None\<close>.  The result is the fixes and the state after the loop.
\<close>

fun sort_kokkos_fixes ::
  "nat list \<Rightarrow> 'v Fix list \<Rightarrow> 'v atom_kokkos \<Rightarrow> ('v Fix list \<times> 'v atom_kokkos) option" where
  "sort_kokkos_fixes p [] st = Some ([], st)"
| "sort_kokkos_fixes p (fx # fxs) st =
     (if kokkos_base fx
      then (case fix_sort_kokkos p fx st of
              (fx', st1) \<Rightarrow>
                (case sort_kokkos_fixes p fxs st1 of
                   None \<Rightarrow> None
                 | Some (fxs', st2) \<Rightarrow> Some (fx' # fxs', st2)))
      else None)"

text \<open>
  \<^verbatim>\<open>AtomKokkos::sort_device\<close>, lines 186-231, in its four parts: \<open>sort_setup\<close>, the
  schedule and the bins (lines 190-194), \<open>sort_device_keys\<close> (lines 199-202), the
  \<open>Sorter\<close> (lines 206-215) and \<open>sort_device_reorder\<close> (lines 217-230).  \<^verbatim>\<open>d_x\<close> is
  taken before the sync of line 202, but it is a handle on the device buffer, not a copy:
  the sorter sees the buffer as the sync left it.
\<close>

definition sort_setup :: "'v atom_kokkos \<Rightarrow> 'v atom_kokkos option" where
  "sort_setup st =
     (case set_nextsort st of
        None \<Rightarrow> None
      | Some st1 \<Rightarrow> Some (if box_change st1 then setup_sort_bins st1 else st1))"

definition sort_device_keys :: "'v atom_kokkos \<Rightarrow> 'v atom_kokkos" where
  "sort_device_keys st =
     (let st1 = (if triclinic st then lamda2x (nlocal st) st else st)
      in sync Device (X_MASK (masks st1)) st1)"

definition Sorter :: "'v atom_kokkos \<Rightarrow> nat list" where
  "Sorter st =
     (let d_x = d_view (views st K_x);
          max_bins = (nbinx st, nbiny st, nbinz st)
      in create_permute_vector (bin_of st max_bins) d_x (nlocal st))"

definition sort_device_reorder :: "nat list \<Rightarrow> 'v atom_kokkos \<Rightarrow> 'v atom_kokkos option" where
  "sort_device_reorder p st =
     (let st1 = avec_sort_kokkos p st
      in case sort_kokkos_fixes p (extra_grow st1) st1 of
           None \<Rightarrow> None
         | Some (fxs, st2) \<Rightarrow>
             (let st3 = st2\<lparr>extra_grow := fxs\<rparr>
              in Some (if triclinic st3 then x2lamda (nlocal st3) st3 else st3)))"

definition sort_device :: "'v atom_kokkos \<Rightarrow> 'v atom_kokkos option" where
  "sort_device st =
     (case sort_setup st of
        None \<Rightarrow> None
      | Some st1 \<Rightarrow>
          if nbins st1 = 1 then Some st1
          else (let st2 = sort_device_keys st1
                in sort_device_reorder (Sorter st2) st2))"

text \<open>
  Modelled from the spec: \<^verbatim>\<open>Atom::sort\<close>, the reference sort on the host
  (\<^verbatim>\<open>atom.cpp\<close> is not among the sources).  Spec 4.3: the next sort step is set, the
  bins are set up again after a change of the box, a grid of one bin is not sorted;
  otherwise the records are sorted by bin in place: the host copies of all co-indexed
  fields, and for each extension its own array and the custom fields it holds (the host
  rows of \<^verbatim>\<open>k_dvector\<close> and the blocks of the heap).  \<open>Atom_sorter\<close> is the permutation,
  from the host copy of \<^verbatim>\<open>x\<close>.
\<close>

definition Atom_sorter :: "'v atom_kokkos \<Rightarrow> nat list" where
  "Atom_sorter st =
     create_permute_vector (bin_of st (nbinx st, nbiny st, nbinz st))
       (h_view (views st K_x)) (nlocal st)"

definition Atom_sort :: "'v atom_kokkos \<Rightarrow> 'v atom_kokkos option" where
  "Atom_sort st =
     (case sort_setup st of
        None \<Rightarrow> None
      | Some st1 \<Rightarrow>
          if nbins st1 = 1 then Some st1
          else (let p = Atom_sorter st1;
                    fxs = extra_grow st1;
                    st2 = st1\<lparr>views := (\<lambda>f. if per_atom st1 f
                                  then (views st1 f)\<lparr>h_view := permute_rows p (h_view (views st1 f))\<rparr>
                                  else views st1 f)\<rparr>;
                    st3 = st2\<lparr>views := (views st2)
                            (K_dvector := (views st2 K_dvector)
                               \<lparr>h_view := apply_at (permute_rows p) (concat (map (fix_rows st1) fxs))
                                            (h_view (views st2 K_dvector))\<rparr>)\<rparr>;
                    st4 = sort_blocks p (concat (map (fix_blocks st1) fxs)) st3
                in Some (st4\<lparr>extra_grow :=
                              map (\<lambda>fx. fx\<lparr>fix_array := permute_rows p (fix_array fx)\<rparr>) fxs\<rparr>)))"

text \<open>
  \<^verbatim>\<open>AtomKokkos::sort\<close>, lines 155-182.  \<open>sort_check\<close> is the loop of lines 160-167 with
  its \<^verbatim>\<open>break\<close>, giving \<^verbatim>\<open>flag\<close>; \<open>sort_fallback\<close> is lines 159-175; \<open>sort_host\<close> is
  the branch of lines 178-180.
\<close>

fun sort_check :: "'v Fix list \<Rightarrow> int" where
  "sort_check [] = 1"
| "sort_check (fx # fxs) = (if \<not> fix_sort_device fx then 0 else sort_check fxs)"

definition sort_warning :: string where
  "sort_warning = ''Fix with atom-based arrays not compatible with Kokkos sorting on device, switching to classic host sorting''"

definition sort_fallback :: "'v atom_kokkos \<Rightarrow> 'v atom_kokkos" where
  "sort_fallback st =
     (if \<not> sort_classic st then
        (let flag = sort_check (extra_grow st)
         in if flag = 0 then
              (let st1 = (if me st = 0 then st\<lparr>warnings := warnings st @ [sort_warning]\<rparr> else st)
               in st1\<lparr>sort_classic := True\<rparr>)
            else st)
      else st)"

definition sort_host :: "'v atom_kokkos \<Rightarrow> 'v atom_kokkos option" where
  "sort_host st =
     (case Atom_sort (sync Host (ALL_MASK (masks st)) st) of
        None \<Rightarrow> None
      | Some st1 \<Rightarrow> Some (modified Host (ALL_MASK (masks st1)) st1))"

definition sort :: "'v atom_kokkos \<Rightarrow> 'v atom_kokkos option" where
  "sort st =
     (let st1 = sort_fallback st
      in if sort_classic st1 then sort_host st1 else sort_device st1)"

text \<open>A run of \<open>n\<close> sort cycles one after the other.\<close>

fun sort_cycles :: "nat \<Rightarrow> 'v atom_kokkos \<Rightarrow> 'v atom_kokkos option" where
  "sort_cycles 0 st = Some st"
| "sort_cycles (Suc n) st =
     (case sort st of None \<Rightarrow> None | Some st1 \<Rightarrow> sort_cycles n st1)"

section \<open>The four index spaces of the registry\<close>

text \<open>
  \<^verbatim>\<open>add_custom\<close> and \<^verbatim>\<open>remove_custom\<close> choose among the four kind/shape spaces by the
  same test on \<^verbatim>\<open>flag\<close> and \<^verbatim>\<open>cols\<close> (lines 259-288 and 311-328); \<open>space_of\<close> is that
  test.  For each space: its counter, its name slots, and which of its storage slots hold
  a non-null pointer.
\<close>

definition space_of :: "int \<Rightarrow> int \<Rightarrow> space option" where
  "space_of flag cols =
     (if flag = 0 \<and> cols = 0 then Some IVector
      else if flag = 1 \<and> cols = 0 then Some DVector
      else if flag = 0 \<and> cols \<noteq> 0 then Some IArray
      else if flag = 1 \<and> cols \<noteq> 0 then Some DArray
      else None)"

fun counter :: "space \<Rightarrow> 'v atom_kokkos \<Rightarrow> nat" where
  "counter IVector st = nivector st"
| "counter DVector st = ndvector st"
| "counter IArray st = niarray st"
| "counter DArray st = ndarray st"

fun names :: "space \<Rightarrow> 'v atom_kokkos \<Rightarrow> string option list" where
  "names IVector st = ivname st"
| "names DVector st = dvname st"
| "names IArray st = ianame st"
| "names DArray st = daname st"

fun nonnull :: "space \<Rightarrow> 'v atom_kokkos \<Rightarrow> bool list" where
  "nonnull IVector st = map (\<lambda>p. p \<noteq> None) (ivector st)"
| "nonnull DVector st = map (\<lambda>p. p \<noteq> None) (dvector st)"
| "nonnull IArray st = map (\<lambda>p. p \<noteq> None) (iarray st)"
| "nonnull DArray st = map (\<lambda>p. p \<noteq> None) (darray st)"

text \<open>
  In a registry built by \<^verbatim>\<open>add_custom\<close> and \<^verbatim>\<open>remove_custom\<close> from the empty one, every
  slot list is as long as its counter says.
\<close>

definition registry_inv :: "'v atom_kokkos \<Rightarrow> bool" where
  "registry_inv st =
     (list_all
        (\<lambda>sp. length (names sp st) = counter sp st \<and> length (nonnull sp st) = counter sp st)
        [IVector, DVector, IArray, DArray])"

text \<open>
  A life of the store: a sequence of calls.  \<open>run\<close> performs them in order and collects,
  for every \<^verbatim>\<open>add_custom\<close>, the space and the index returned.  It has no result when a
  call has none (an index out of bounds, an index returned uninitialised).
\<close>

datatype store_op =
    Add_custom string int int
  | Remove_custom int int int
  | Sync ExecutionSpace mask
  | Modified ExecutionSpace mask
  | Grow mask

fun run ::
  "store_op list \<Rightarrow> ('v::zero) atom_kokkos \<Rightarrow> ((space \<times> int) list \<times> 'v atom_kokkos) option" where
  "run [] st = Some ([], st)"
| "run (Add_custom name flag cols # ops) st =
     (case (add_custom name flag cols st, space_of flag cols) of
        ((Some index, st1), Some sp) \<Rightarrow>
          (case run ops st1 of
             None \<Rightarrow> None
           | Some (issued, st2) \<Rightarrow> Some ((sp, index) # issued, st2))
      | _ \<Rightarrow> None)"
| "run (Remove_custom index flag cols # ops) st =
     (case remove_custom index flag cols st of None \<Rightarrow> None | Some st1 \<Rightarrow> run ops st1)"
| "run (Sync space m # ops) st = run ops (sync space m st)"
| "run (Modified space m # ops) st = run ops (modified space m st)"
| "run (Grow m # ops) st = run ops (grow m st)"

section \<open>The value a sort starts from, and what it is to be reordered\<close>

text \<open>
  The value of a field before a device sort is the one the store hands to device code that
  asks for the field with \<open>sync(Device, G)\<close>: the host copy when the host side is marked
  modified, or under auto-sync, where the host side is the ground truth; else the device
  copy.  \<open>device_holds st f X\<close> says that the device copy of \<open>f\<close> is \<open>X\<close> and is that value.
  The value of a field before a host sort is its host copy after the \<open>sync(Host, ALL_MASK)\<close>
  of line 178.
\<close>

definition device_value :: "'v atom_kokkos \<Rightarrow> field \<Rightarrow> 'v list list" where
  "device_value st f =
     (if auto_sync st \<or> modified_host (views st f) then h_view (views st f)
      else d_view (views st f))"

definition device_holds :: "'v atom_kokkos \<Rightarrow> field \<Rightarrow> 'v list list \<Rightarrow> bool" where
  "device_holds st f X =
     (d_view (views st f) = X \<and>
      (if auto_sync st then h_view (views st f) = X else \<not> modified_host (views st f)))"





text \<open>The state after the call of one fix, and after the loop over a list of fixes.\<close>

definition fix_step :: "nat list \<Rightarrow> 'v Fix \<Rightarrow> 'v atom_kokkos \<Rightarrow> 'v atom_kokkos" where
  "fix_step p fx st = snd (fix_sort_kokkos p fx st)"

definition fixes_state :: "nat list \<Rightarrow> 'v Fix list \<Rightarrow> 'v atom_kokkos \<Rightarrow> 'v atom_kokkos" where
  "fixes_state p fxs st = fold (fix_step p) fxs st"

section \<open>A small store\<close>

text \<open>
  A store of three records over integer cells, used to run the operations: positions
  \<^verbatim>\<open>x\<close>, the special-bonds field, the field \<open>v\<close> whose device copy differs from its
  host copy, the field \<open>tag\<close>, one extension with device-reorder support, and an empty
  custom-field registry.
\<close>

definition example_masks :: atom_masks where
  "example_masks =
     \<lparr>X_MASK = 0x1, SPECIAL_MASK = 0x4000, DVECTOR_MASK = 0x200000, ALL_MASK = 0xFFFFFFFF\<rparr>"

fun example_field_mask :: "field \<Rightarrow> mask" where
  "example_field_mask K_x = 0x1"
| "example_field_mask K_special = 0x4000"
| "example_field_mask K_dvector = 0x200000"
| "example_field_mask (K_field s) = 0x8"

fun example_views :: "field \<Rightarrow> int dual" where
  "example_views K_x =
     \<lparr>h_view = [[2], [0], [1]], d_view = [[2], [0], [1]],
      modified_host = False, modified_device = False\<rparr>"
| "example_views K_special =
     \<lparr>h_view = [[7], [8], [9]], d_view = [[7], [8], [9]],
      modified_host = False, modified_device = False\<rparr>"
| "example_views K_dvector =
     \<lparr>h_view = [], d_view = [], modified_host = False, modified_device = False\<rparr>"
| "example_views (K_field s) =
     (if s = ''v''
      then \<lparr>h_view = [[0], [0], [0]], d_view = [[4], [5], [6]],
            modified_host = False, modified_device = False\<rparr>
      else \<lparr>h_view = [[10], [11], [12]], d_view = [[10], [11], [12]],
            modified_host = False, modified_device = False\<rparr>)"

definition example :: "int atom_kokkos" where
  "example =
     \<lparr>masks = example_masks,
      field_mask = example_field_mask,
      per_atom = (\<lambda>f. f \<noteq> K_dvector),
      auto_sync = False,
      kokkos_sort_classic = False,
      sort_classic = False,
      views = example_views,
      nlocal = 3, nmax = 3, maxspecial = 1,
      nbins = 3, nbinx = 3, nbiny = 1, nbinz = 1,
      nextsort = 0, ntimestep = 10, sortfreq = 4,
      box_change = False, triclinic = False,
      domain_bins = (3, 1, 1),
      lamda2x_row = map (\<lambda>c. c + 100),
      x2lamda_row = map (\<lambda>c. c - 100),
      bin_of = (\<lambda>max_bins r. nat (hd r)),
      extra_grow = [\<lparr>fix_sort_device = True, kokkos_base = True,
                     fix_array = [[20], [21], [22]], fix_custom = []\<rparr>],
      me = 0, warnings = [], grow_pointers_calls = 0,
      heap = [],
      nivector = 0, ivname = [], ivector = [],
      ndvector = 0, dvname = [], dvector = [],
      niarray = 0, ianame = [], iarray = [], icols = [],
      ndarray = 0, daname = [], darray = [], dcols = []\<rparr>"

text \<open>
  The same store with an extension that has no device-reorder support; with a triclinic
  box whose conversions lose digits, as floating-point conversions do; and with a
  triclinic box whose conversions are exact and with an integer vector and a real vector
  in the registry, both held by the extension.
\<close>

definition example_plain_fix :: "int atom_kokkos" where
  "example_plain_fix =
     example\<lparr>extra_grow := [\<lparr>fix_sort_device = False, kokkos_base = False,
                                fix_array = [[20], [21], [22]], fix_custom = []\<rparr>]\<rparr>"



section \<open>Frame lemmas\<close>

text \<open>The operations of the store change the views and nothing else.\<close>

lemma sync_frame [simp]:
  "masks (sync space m st) = masks st"
  "field_mask (sync space m st) = field_mask st"
  "per_atom (sync space m st) = per_atom st"
  "auto_sync (sync space m st) = auto_sync st"
  "kokkos_sort_classic (sync space m st) = kokkos_sort_classic st"
  "sort_classic (sync space m st) = sort_classic st"
  "nlocal (sync space m st) = nlocal st"
  "nmax (sync space m st) = nmax st"
  "maxspecial (sync space m st) = maxspecial st"
  "nbins (sync space m st) = nbins st"
  "nbinx (sync space m st) = nbinx st"
  "nbiny (sync space m st) = nbiny st"
  "nbinz (sync space m st) = nbinz st"
  "nextsort (sync space m st) = nextsort st"
  "ntimestep (sync space m st) = ntimestep st"
  "sortfreq (sync space m st) = sortfreq st"
  "box_change (sync space m st) = box_change st"
  "triclinic (sync space m st) = triclinic st"
  "domain_bins (sync space m st) = domain_bins st"
  "lamda2x_row (sync space m st) = lamda2x_row st"
  "x2lamda_row (sync space m st) = x2lamda_row st"
  "bin_of (sync space m st) = bin_of st"
  "extra_grow (sync space m st) = extra_grow st"
  "me (sync space m st) = me st"
  "warnings (sync space m st) = warnings st"
  "grow_pointers_calls (sync space m st) = grow_pointers_calls st"
  "heap (sync space m st) = heap st"
  "nivector (sync space m st) = nivector st"
  "ivname (sync space m st) = ivname st"
  "ivector (sync space m st) = ivector st"
  "ndvector (sync space m st) = ndvector st"
  "dvname (sync space m st) = dvname st"
  "dvector (sync space m st) = dvector st"
  "niarray (sync space m st) = niarray st"
  "ianame (sync space m st) = ianame st"
  "iarray (sync space m st) = iarray st"
  "icols (sync space m st) = icols st"
  "ndarray (sync space m st) = ndarray st"
  "daname (sync space m st) = daname st"
  "darray (sync space m st) = darray st"
  "dcols (sync space m st) = dcols st"
  by (simp_all add: sync_def avec_sync_def avec_modified_def Let_def)

lemma modified_frame [simp]:
  "masks (modified space m st) = masks st"
  "field_mask (modified space m st) = field_mask st"
  "per_atom (modified space m st) = per_atom st"
  "auto_sync (modified space m st) = auto_sync st"
  "kokkos_sort_classic (modified space m st) = kokkos_sort_classic st"
  "sort_classic (modified space m st) = sort_classic st"
  "nlocal (modified space m st) = nlocal st"
  "nmax (modified space m st) = nmax st"
  "maxspecial (modified space m st) = maxspecial st"
  "nbins (modified space m st) = nbins st"
  "nbinx (modified space m st) = nbinx st"
  "nbiny (modified space m st) = nbiny st"
  "nbinz (modified space m st) = nbinz st"
  "nextsort (modified space m st) = nextsort st"
  "ntimestep (modified space m st) = ntimestep st"
  "sortfreq (modified space m st) = sortfreq st"
  "box_change (modified space m st) = box_change st"
  "triclinic (modified space m st) = triclinic st"
  "domain_bins (modified space m st) = domain_bins st"
  "lamda2x_row (modified space m st) = lamda2x_row st"
  "x2lamda_row (modified space m st) = x2lamda_row st"
  "bin_of (modified space m st) = bin_of st"
  "extra_grow (modified space m st) = extra_grow st"
  "me (modified space m st) = me st"
  "warnings (modified space m st) = warnings st"
  "grow_pointers_calls (modified space m st) = grow_pointers_calls st"
  "heap (modified space m st) = heap st"
  "nivector (modified space m st) = nivector st"
  "ivname (modified space m st) = ivname st"
  "ivector (modified space m st) = ivector st"
  "ndvector (modified space m st) = ndvector st"
  "dvname (modified space m st) = dvname st"
  "dvector (modified space m st) = dvector st"
  "niarray (modified space m st) = niarray st"
  "ianame (modified space m st) = ianame st"
  "iarray (modified space m st) = iarray st"
  "icols (modified space m st) = icols st"
  "ndarray (modified space m st) = ndarray st"
  "daname (modified space m st) = daname st"
  "darray (modified space m st) = darray st"
  "dcols (modified space m st) = dcols st"
  by (simp_all add: modified_def avec_sync_def avec_modified_def Let_def)

lemma in_group_sync [simp]: "in_group (sync space m st) f g = in_group st f g"
  by (simp add: in_group_def)

lemma in_group_modified [simp]: "in_group (modified space m st) f g = in_group st f g"
  by (simp add: in_group_def)

text \<open>Releasing a block changes the heap and nothing else.\<close>

lemma memory_destroy_frame [simp]:
  "masks (memory_destroy ptr st) = masks st"
  "field_mask (memory_destroy ptr st) = field_mask st"
  "per_atom (memory_destroy ptr st) = per_atom st"
  "auto_sync (memory_destroy ptr st) = auto_sync st"
  "kokkos_sort_classic (memory_destroy ptr st) = kokkos_sort_classic st"
  "sort_classic (memory_destroy ptr st) = sort_classic st"
  "nlocal (memory_destroy ptr st) = nlocal st"
  "nmax (memory_destroy ptr st) = nmax st"
  "maxspecial (memory_destroy ptr st) = maxspecial st"
  "nbins (memory_destroy ptr st) = nbins st"
  "nbinx (memory_destroy ptr st) = nbinx st"
  "nbiny (memory_destroy ptr st) = nbiny st"
  "nbinz (memory_destroy ptr st) = nbinz st"
  "nextsort (memory_destroy ptr st) = nextsort st"
  "ntimestep (memory_destroy ptr st) = ntimestep st"
  "sortfreq (memory_destroy ptr st) = sortfreq st"
  "box_change (memory_destroy ptr st) = box_change st"
  "triclinic (memory_destroy ptr st) = triclinic st"
  "domain_bins (memory_destroy ptr st) = domain_bins st"
  "lamda2x_row (memory_destroy ptr st) = lamda2x_row st"
  "x2lamda_row (memory_destroy ptr st) = x2lamda_row st"
  "bin_of (memory_destroy ptr st) = bin_of st"
  "extra_grow (memory_destroy ptr st) = extra_grow st"
  "me (memory_destroy ptr st) = me st"
  "warnings (memory_destroy ptr st) = warnings st"
  "grow_pointers_calls (memory_destroy ptr st) = grow_pointers_calls st"
  "nivector (memory_destroy ptr st) = nivector st"
  "ivname (memory_destroy ptr st) = ivname st"
  "ivector (memory_destroy ptr st) = ivector st"
  "ndvector (memory_destroy ptr st) = ndvector st"
  "dvname (memory_destroy ptr st) = dvname st"
  "dvector (memory_destroy ptr st) = dvector st"
  "niarray (memory_destroy ptr st) = niarray st"
  "ianame (memory_destroy ptr st) = ianame st"
  "iarray (memory_destroy ptr st) = iarray st"
  "icols (memory_destroy ptr st) = icols st"
  "ndarray (memory_destroy ptr st) = ndarray st"
  "daname (memory_destroy ptr st) = daname st"
  "darray (memory_destroy ptr st) = darray st"
  "dcols (memory_destroy ptr st) = dcols st"
  "views (memory_destroy ptr st) = views st"
  by (cases ptr; simp add: memory_destroy_def)+

lemma length_heap_memory_destroy [simp]: "length (heap (memory_destroy ptr st)) = length (heap st)"
  by (cases ptr) (simp_all add: memory_destroy_def)

section \<open>Properties of the dual-field store\<close>

lemma sync_view_idem: "sync_view sp (sync_view sp d) = sync_view sp d"
  by (cases sp) simp_all

lemma sync_Host: "sync Host m st = avec_sync Host m st"
  by (simp add: sync_def)

text \<open>
  Claim C9.  For every field group \<open>G\<close>, a second \<open>sync(Host, G)\<close> right after the first
  changes nothing: the state after the second call is the state after the first, so
  nothing is copied and no data is touched.
\<close>

theorem sync_host_twice: "sync Host G (sync Host G st) = sync Host G st"
proof -
  have "(\<lambda>f. if in_group st f G then sync_view Host (sync_view Host (views st f)) else views st f)
        = (\<lambda>f. if in_group st f G then sync_view Host (views st f) else views st f)"
    by (simp only: sync_view_idem)
  then show ?thesis
    by (simp add: sync_Host avec_sync_def in_group_def del: sync_view.simps cong: if_cong)
qed

text \<open>
  Claim C2.  For every field group \<open>G\<close>, every state of the store and every field of
  \<open>G\<close>: after \<open>modified(Device, G)\<close> and then \<open>sync(Host, G)\<close> the host copy of the field
  is the device copy as it was when \<open>modified\<close> was called.
\<close>

theorem modified_device_then_sync_host:
  "in_group st f G \<Longrightarrow>
   h_view (views (sync Host G (modified Device G st)) f) = d_view (views st f)"
  by (simp add: sync_Host modified_def avec_sync_def avec_modified_def in_group_def Let_def)

theorem modified_device_then_sync_host_witness:
  "in_group example (K_field ''v'') 0x8 \<and>
   h_view (views example (K_field ''v'')) = [[0], [0], [0]] \<and>
   h_view (views (sync Host 0x8 (modified Device 0x8 example)) (K_field ''v'')) = [[4], [5], [6]]"
  using modified_device_then_sync_host [of example "K_field ''v''" "0x8"]
  by (simp add: in_group_def example_def)

text \<open>
  Claim C5.  With the auto-sync flag on, \<open>modified(Device, G)\<close> is the marking of the
  device side followed at once by the sync to the host, and \<open>sync(Device, G)\<close> first marks
  the host side modified for \<open>G\<close> and then syncs to the device.  With the flag off, or with
  the side \<open>Host\<close>, each is the plain operation of the layout and nothing more.
\<close>

theorem auto_sync_policy:
  "(auto_sync st \<longrightarrow>
      modified Device G st = avec_sync Host G (avec_modified Device G st) \<and>
      sync Device G st = avec_sync Device G (avec_modified Host G st)) \<and>
   (\<not> auto_sync st \<or> space = Host \<longrightarrow>
      modified space G st = avec_modified space G st \<and>
      sync space G st = avec_sync space G st)"
  by (auto simp add: sync_def modified_def avec_sync_def avec_modified_def Let_def)

theorem auto_sync_policy_witness:
  "auto_sync (example\<lparr>auto_sync := True\<rparr>) \<and> \<not> auto_sync example \<and>
   h_view (views (modified Device 0x8 (example\<lparr>auto_sync := True\<rparr>)) (K_field ''v''))
     = [[4], [5], [6]] \<and>
   modified_host (views (sync Device 0x8 (example\<lparr>auto_sync := True\<rparr>)) (K_field ''v''))
     = False \<and>
   d_view (views (sync Device 0x8 (example\<lparr>auto_sync := True\<rparr>)) (K_field ''v''))
     = [[0], [0], [0]] \<and>
   h_view (views (modified Device 0x8 example) (K_field ''v'')) = [[0], [0], [0]] \<and>
   d_view (views (sync Device 0x8 example) (K_field ''v'')) = [[4], [5], [6]] \<and>
   modified_host (views (modified Host 0x8 (example\<lparr>auto_sync := True\<rparr>)) (K_field ''v''))"
  using auto_sync_policy [of "example\<lparr>auto_sync := True\<rparr>" "0x8" Host]
        auto_sync_policy [of example "0x8" Device]
  by (simp add: avec_sync_def avec_modified_def in_group_def example_def)

section \<open>Properties of the custom field registry\<close>

lemma length_srealloc [simp]: "length (srealloc xs n) = n"
  by (simp add: srealloc_def)

lemma length_row_pointers [simp]: "length (row_pointers n1 n2) = n1"
  by (simp add: row_pointers_def)

lemma sync_registry [simp]:
  "counter sp (sync space m st) = counter sp st"
  "names sp (sync space m st) = names sp st"
  "nonnull sp (sync space m st) = nonnull sp st"
  by (cases sp; simp)+

lemma modified_registry [simp]:
  "counter sp (modified space m st) = counter sp st"
  "names sp (modified space m st) = names sp st"
  "nonnull sp (modified space m st) = nonnull sp st"
  by (cases sp; simp)+

lemma grow_registry [simp]:
  "counter sp (grow m st) = counter sp st"
  "names sp (grow m st) = names sp st"
  "nonnull sp (grow m st) = nonnull sp st"
  by (cases sp; simp add: grow_def Let_def grow_pointers_def grow_kokkos_def destroy_kokkos_def)+

lemma add_custom_fst:
  "fst (add_custom name flag cols st) = map_option (\<lambda>sp. int (counter sp st)) (space_of flag cols)"
  by (simp add: add_custom_def memory_create_def space_of_def Let_def)

lemma add_custom_counter:
  "counter sp (snd (add_custom name flag cols st)) =
     (if space_of flag cols = Some sp then Suc (counter sp st) else counter sp st)"
  by (cases sp; simp add: add_custom_def memory_create_def space_of_def Let_def grow_kokkos_def)

lemma add_custom_lengths:
  "space_of flag cols = Some sp \<Longrightarrow>
   length (names sp (snd (add_custom name flag cols st))) = Suc (counter sp st) \<and>
   length (nonnull sp (snd (add_custom name flag cols st))) = Suc (counter sp st)"
  by (cases sp; simp add: add_custom_def memory_create_def space_of_def Let_def grow_kokkos_def split: if_splits)

lemma add_custom_name:
  "space_of flag cols = Some sp \<Longrightarrow>
   names sp (snd (add_custom name flag cols st)) ! counter sp st = Some name"
  by (cases sp; simp add: add_custom_def memory_create_def space_of_def Let_def grow_kokkos_def split: if_splits)

lemma add_custom_index:
  "add_custom name flag cols st = (Some index, st1) \<Longrightarrow>
   \<exists>sp. space_of flag cols = Some sp \<and> index = int (counter sp st)"
  using add_custom_fst [of name flag cols st] by (cases "space_of flag cols") auto

text \<open>
  Claim C10.  \<open>add_custom\<close> registers a field and returns the slot index, which is the
  counter of the space chosen by \<open>flag\<close> and \<open>cols\<close>, only when \<open>flag\<close> is 0 or 1.  With
  any other flag no branch is taken: nothing is registered, the state is unchanged and the
  returned index is the uninitialised local.
\<close>

theorem add_custom_flag:
  "(flag = 0 \<or> flag = 1 \<longrightarrow>
      (\<exists>sp. space_of flag cols = Some sp \<and>
            fst (add_custom name flag cols st) = Some (int (counter sp st)) \<and>
            counter sp (snd (add_custom name flag cols st)) = Suc (counter sp st) \<and>
            names sp (snd (add_custom name flag cols st)) ! counter sp st = Some name)) \<and>
   (flag \<noteq> 0 \<and> flag \<noteq> 1 \<longrightarrow> add_custom name flag cols st = (None, st))"
proof (intro conjI impI)
  assume "flag = 0 \<or> flag = 1"
  then have "\<exists>sp. space_of flag cols = Some sp"
    by (cases "cols = 0") (auto simp add: space_of_def)
  then obtain sp where "space_of flag cols = Some sp"
    by blast
  then show "\<exists>sp. space_of flag cols = Some sp \<and>
            fst (add_custom name flag cols st) = Some (int (counter sp st)) \<and>
            counter sp (snd (add_custom name flag cols st)) = Suc (counter sp st) \<and>
            names sp (snd (add_custom name flag cols st)) ! counter sp st = Some name"
    by (simp add: add_custom_fst add_custom_counter add_custom_name)
next
  assume "flag \<noteq> 0 \<and> flag \<noteq> 1"
  then show "add_custom name flag cols st = (None, st)"
    by (simp add: add_custom_def memory_create_def)
qed

theorem add_custom_flag_witness:
  "fst (add_custom ''q_extra'' 1 0 example) = Some 0 \<and>
   ndvector (snd (add_custom ''q_extra'' 1 0 example)) = 1 \<and>
   dvname (snd (add_custom ''q_extra'' 1 0 example)) ! 0 = Some ''q_extra'' \<and>
   fst (add_custom ''i_extra'' 0 2 example) = Some 0 \<and>
   niarray (snd (add_custom ''i_extra'' 0 2 example)) = 1 \<and>
   ianame (snd (add_custom ''i_extra'' 0 2 example)) ! 0 = Some ''i_extra'' \<and>
   add_custom ''q_extra'' 2 0 example = (None, example)"
  using add_custom_flag [of 1 0 "''q_extra''" example]
        add_custom_flag [of 0 2 "''i_extra''" example]
        add_custom_flag [of 2 0 "''q_extra''" example]
  by (simp add: space_of_def example_def)

lemma remove_custom_frame:
  "remove_custom index flag cols st = Some st1 \<Longrightarrow>
   nivector st1 = nivector st \<and> ndvector st1 = ndvector st \<and>
   niarray st1 = niarray st \<and> ndarray st1 = ndarray st \<and> views st1 = views st"
  unfolding remove_custom_def Let_def
  by (simp split: if_splits) auto

lemma remove_custom_counter:
  "remove_custom index flag cols st = Some st1 \<Longrightarrow> counter sp st1 = counter sp st"
  using remove_custom_frame [of index flag cols st st1] by (cases sp) simp_all

lemma remove_custom_in_range:
  "remove_custom index flag cols st = Some st1 \<Longrightarrow> space_of flag cols = Some sp \<Longrightarrow>
   in_range index (names sp st) \<and> in_range index (nonnull sp st)"
  unfolding remove_custom_def Let_def space_of_def
  by (simp split: if_splits add: in_range_def)

lemma remove_custom_below_counter:
  "registry_inv st \<Longrightarrow> space_of flag cols = Some sp \<Longrightarrow>
   remove_custom index flag cols st = Some st1 \<Longrightarrow> 0 \<le> index \<and> index < int (counter sp st)"
proof -
  assume inv: "registry_inv st" and sp: "space_of flag cols = Some sp"
    and rm: "remove_custom index flag cols st = Some st1"
  have "in_range index (names sp st)"
    using remove_custom_in_range [OF rm sp] by simp
  moreover have "length (names sp st) = counter sp st"
    using inv by (cases sp) (simp_all add: registry_inv_def)
  ultimately show ?thesis
    by (simp add: in_range_def) linarith
qed

lemma registry_inv_remove:
  "registry_inv st \<Longrightarrow> remove_custom index flag cols st = Some st1 \<Longrightarrow> registry_inv st1"
  unfolding remove_custom_def Let_def registry_inv_def
  by (simp split: if_splits) auto

lemma registry_inv_add:
  "registry_inv st \<Longrightarrow> registry_inv (snd (add_custom name flag cols st))"
  by (simp add: registry_inv_def add_custom_def memory_create_def Let_def grow_kokkos_def)

lemma registry_inv_example: "registry_inv example"
  by (simp add: registry_inv_def example_def)

lemma run_issued:
  "run ops st = Some (issued, st') \<Longrightarrow>
   counter sp st \<le> counter sp st' \<and>
   (\<forall>i. (sp, i) \<in> set issued \<longrightarrow> int (counter sp st) \<le> i) \<and>
   sorted_wrt (<) (map snd (filter (\<lambda>e. fst e = sp) issued))"
proof (induction ops arbitrary: st issued)
  case Nil
  then show ?case by simp
next
  case (Cons op ops)
  show ?case
  proof (cases op)
    case (Add_custom name flag cols)
    with Cons.prems obtain index st1 rest sp0 where
      a: "add_custom name flag cols st = (Some index, st1)" and
      s0: "space_of flag cols = Some sp0" and
      r: "run ops st1 = Some (rest, st')" and
      i: "issued = (sp0, index) # rest"
      by (auto split: prod.splits option.splits)
    from a s0 have ix: "index = int (counter sp0 st)"
      using add_custom_index by fastforce
    have c1: "counter sp st1 = (if sp0 = sp then Suc (counter sp st) else counter sp st)"
      using add_custom_counter [of sp name flag cols st] a s0 by simp
    from Cons.IH [OF r] have ih:
      "counter sp st1 \<le> counter sp st'"
      "\<forall>i. (sp, i) \<in> set rest \<longrightarrow> int (counter sp st1) \<le> i"
      "sorted_wrt (<) (map snd (filter (\<lambda>e. fst e = sp) rest))"
      by simp_all
    show ?thesis
      using ih c1 by (auto simp add: i ix)
  next
    case (Remove_custom index flag cols)
    with Cons.prems obtain st1 where
      a: "remove_custom index flag cols st = Some st1" and r: "run ops st1 = Some (issued, st')"
      by (auto split: option.splits)
    show ?thesis
      using Cons.IH [OF r] remove_custom_counter [OF a, of sp] by simp
  next
    case (Sync space m)
    with Cons.prems have r: "run ops (sync space m st) = Some (issued, st')" by simp
    show ?thesis using Cons.IH [OF r] by simp
  next
    case (Modified space m)
    with Cons.prems have r: "run ops (modified space m st) = Some (issued, st')" by simp
    show ?thesis using Cons.IH [OF r] by simp
  next
    case (Grow m)
    with Cons.prems have r: "run ops (grow m st) = Some (issued, st')" by simp
    show ?thesis using Cons.IH [OF r] by simp
  qed
qed

text \<open>The invariant of the registry holds along every life of the store.\<close>

lemma registry_inv_store [simp]:
  "registry_inv (sync space m st) = registry_inv st"
  "registry_inv (modified space m st) = registry_inv st"
  "registry_inv (grow m st) = registry_inv st"
  by (simp_all add: registry_inv_def)

lemma registry_inv_run:
  "registry_inv st \<Longrightarrow> run ops st = Some (issued, st') \<Longrightarrow> registry_inv st'"
proof (induction ops arbitrary: st issued)
  case Nil
  then show ?case by simp
next
  case (Cons op ops)
  show ?case
  proof (cases op)
    case (Add_custom name flag cols)
    with Cons.prems obtain index st1 rest where
      a: "add_custom name flag cols st = (Some index, st1)" and
      r: "run ops st1 = Some (rest, st')"
      by (auto split: prod.splits option.splits)
    from a have "st1 = snd (add_custom name flag cols st)"
      by simp
    with Cons.prems(1) have "registry_inv st1"
      by (simp add: registry_inv_add)
    from Cons.IH [OF this r] show ?thesis .
  next
    case (Remove_custom index flag cols)
    with Cons.prems obtain st1 where
      a: "remove_custom index flag cols st = Some st1" and r: "run ops st1 = Some (issued, st')"
      by (auto split: option.splits)
    from Cons.IH [OF registry_inv_remove [OF Cons.prems(1) a] r] show ?thesis .
  next
    case (Sync space m)
    with Cons.prems Cons.IH [of "sync space m st" issued] show ?thesis by simp
  next
    case (Modified space m)
    with Cons.prems Cons.IH [of "modified space m st" issued] show ?thesis by simp
  next
    case (Grow m)
    with Cons.prems Cons.IH [of "grow m st" issued] show ?thesis by simp
  qed
qed

lemma remove_custom_Some:
  "space_of flag cols = Some sp \<Longrightarrow> in_range index (names sp st) \<Longrightarrow>
   in_range index (nonnull sp st) \<Longrightarrow> \<exists>st1. remove_custom index flag cols st = Some st1"
  by (cases sp; simp add: remove_custom_def Let_def space_of_def in_range_def split: if_splits)

lemma scenario:
  "\<exists>st1 st2. add_custom ''q_extra'' 1 0 st = (Some (int (ndvector st)), st1) \<and>
      remove_custom (int (ndvector st)) 1 0 st1 = Some st2 \<and>
      fst (add_custom ''q_extra2'' 1 0 st2) = Some (int (ndvector st) + 1)"
proof -
  define st1 where "st1 = snd (add_custom ''q_extra'' 1 0 st)"
  have sp: "space_of 1 0 = Some DVector"
    by (simp add: space_of_def)
  have a: "add_custom ''q_extra'' 1 0 st = (Some (int (ndvector st)), st1)"
    using add_custom_fst [of "''q_extra''" 1 0 st] sp
    by (simp add: st1_def prod_eq_iff)
  have len: "length (names DVector st1) = Suc (ndvector st)"
    "length (nonnull DVector st1) = Suc (ndvector st)"
    using add_custom_lengths [OF sp, of "''q_extra''" st] by (simp_all add: st1_def)
  have c1: "counter DVector st1 = Suc (ndvector st)"
    using add_custom_counter [of DVector "''q_extra''" 1 0 st] sp by (simp add: st1_def)
  obtain st2 where r: "remove_custom (int (ndvector st)) 1 0 st1 = Some st2"
    using remove_custom_Some [OF sp, of "int (ndvector st)" st1] len
    by (auto simp add: in_range_def)
  have c2: "counter DVector st2 = Suc (ndvector st)"
    using remove_custom_counter [OF r, of DVector] c1 by simp
  have "fst (add_custom ''q_extra2'' 1 0 st2) = Some (int (ndvector st) + 1)"
    using add_custom_fst [of "''q_extra2''" 1 0 st2] sp c2 by simp
  with a r show ?thesis by blast
qed

text \<open>
  Claim C6.  In each of the four kind/shape spaces the indices that \<open>add_custom\<close> returns
  over a life of the store strictly increase; after a \<open>remove_custom\<close> at an index, no
  later \<open>add_custom\<close> in that space returns the index; and from any state,
  \<open>add_custom("q_extra", real, 0) = index\<close>, \<open>remove_custom(index, real, 0)\<close>, then
  \<open>add_custom("q_extra2", real, 0)\<close> returns \<open>index + 1\<close>.
\<close>

theorem custom_index_stability:
  "(run ops st = Some (issued, st') \<longrightarrow>
      sorted_wrt (<) (map snd (filter (\<lambda>e. fst e = sp) issued))) \<and>
   (registry_inv st \<and> space_of flag cols = Some sp \<and>
    remove_custom index flag cols st = Some st_r \<and> run ops st_r = Some (later, st_e) \<longrightarrow>
      (sp, index) \<notin> set later) \<and>
   (\<exists>index st_r st_e.
      add_custom ''q_extra'' 1 0 st = (Some index, st_r) \<and>
      remove_custom index 1 0 st_r = Some st_e \<and>
      fst (add_custom ''q_extra2'' 1 0 st_e) = Some (index + 1))"
proof (intro conjI impI)
  assume "run ops st = Some (issued, st')"
  then show "sorted_wrt (<) (map snd (filter (\<lambda>e. fst e = sp) issued))"
    using run_issued by blast
next
  assume a: "registry_inv st \<and> space_of flag cols = Some sp \<and>
    remove_custom index flag cols st = Some st_r \<and> run ops st_r = Some (later, st_e)"
  then have "index < int (counter sp st)"
    using remove_custom_below_counter by blast
  moreover have "counter sp st_r = counter sp st"
    using a remove_custom_counter by blast
  moreover have "\<forall>i. (sp, i) \<in> set later \<longrightarrow> int (counter sp st_r) \<le> i"
    using a run_issued by blast
  ultimately show "(sp, index) \<notin> set later"
    by fastforce
next
  show "\<exists>index st_r st_e.
      add_custom ''q_extra'' 1 0 st = (Some index, st_r) \<and>
      remove_custom index 1 0 st_r = Some st_e \<and>
      fst (add_custom ''q_extra2'' 1 0 st_e) = Some (index + 1)"
    using scenario [of st] by blast
qed

lemma in_range_0: "length xs = Suc n \<Longrightarrow> in_range 0 xs"
  by (cases xs) (simp_all add: in_range_def)

lemma example_registered:
  "add_custom ''q_extra'' 1 0 example = (Some 0, snd (add_custom ''q_extra'' 1 0 example))"
  using add_custom_fst [of "''q_extra''" 1 0 example]
  by (simp add: space_of_def prod_eq_iff example_def)

lemma example_run:
  "map_option fst (run [Add_custom ''q_extra'' 1 0, Remove_custom 0 1 0, Add_custom ''q_extra2'' 1 0,
                        Sync Host 0x1, Add_custom ''i_extra'' 0 0] example)
   = Some [(DVector, 0), (DVector, 1), (IVector, 0)]"
  by (simp add: add_custom_def memory_create_def remove_custom_def Let_def in_range_def space_of_def Let_def grow_kokkos_def
        srealloc_def row_pointers_def example_def)

theorem custom_index_stability_witness:
  "map_option fst (run [Add_custom ''q_extra'' 1 0, Remove_custom 0 1 0, Add_custom ''q_extra2'' 1 0,
                        Sync Host 0x1, Add_custom ''i_extra'' 0 0] example)
     = Some [(DVector, 0), (DVector, 1), (IVector, 0)] \<and>
   sorted_wrt (<) [0, 1 :: int] \<and>
   registry_inv (snd (add_custom ''q_extra'' 1 0 example)) \<and>
   remove_custom 0 1 0 (snd (add_custom ''q_extra'' 1 0 example)) \<noteq> None \<and>
   map_option fst (run [Add_custom ''q_extra2'' 1 0]
                     (the (remove_custom 0 1 0 (snd (add_custom ''q_extra'' 1 0 example)))))
     = Some [(DVector, 1)] \<and>
   (DVector, 0) \<notin> set [(DVector, 1 :: int)]"
proof -
  let ?ops = "[Add_custom ''q_extra'' 1 0, Remove_custom 0 1 0, Add_custom ''q_extra2'' 1 0,
               Sync Host 0x1, Add_custom ''i_extra'' 0 0]"
  let ?sta = "snd (add_custom ''q_extra'' 1 0 example) :: int atom_kokkos"
  have r: "map_option fst (run ?ops example) = Some [(DVector, 0), (DVector, 1), (IVector, 0)]"
    by (rule example_run)
  then have r': "run ?ops example
      = Some ([(DVector, 0), (DVector, 1), (IVector, 0)], snd (the (run ?ops example)))"
    by (cases "run ?ops example") auto
  have inv: "registry_inv ?sta"
    by (rule registry_inv_add [OF registry_inv_example])
  have sp: "space_of 1 0 = Some DVector"
    by (simp add: space_of_def)
  have rm: "remove_custom 0 1 0 ?sta \<noteq> None"
    using remove_custom_Some [OF sp, of 0 ?sta] add_custom_lengths [OF sp, of "''q_extra''" example]
      in_range_0 [of "names DVector ?sta"] in_range_0 [of "nonnull DVector ?sta"]
    by auto
  then have rm': "remove_custom 0 1 0 ?sta = Some (the (remove_custom 0 1 0 ?sta))"
    by auto
  have c: "counter DVector (the (remove_custom 0 1 0 ?sta)) = 1"
    using remove_custom_counter [OF rm', of DVector]
      add_custom_counter [of DVector "''q_extra''" 1 0 example] sp
    by (simp add: example_def)
  have q: "map_option fst (run [Add_custom ''q_extra2'' 1 0] (the (remove_custom 0 1 0 ?sta)))
      = Some [(DVector, 1)]"
    using add_custom_fst [of "''q_extra2''" 1 0 "the (remove_custom 0 1 0 ?sta)"] sp c
    by (simp add: prod_eq_iff split: prod.splits option.splits)
  then have q': "run [Add_custom ''q_extra2'' 1 0] (the (remove_custom 0 1 0 ?sta))
      = Some ([(DVector, 1)],
              snd (the (run [Add_custom ''q_extra2'' 1 0] (the (remove_custom 0 1 0 ?sta)))))"
    by (cases "run [Add_custom ''q_extra2'' 1 0] (the (remove_custom 0 1 0 ?sta))") auto
  show ?thesis
    using custom_index_stability [where ops = ?ops and st = example
          and issued = "[(DVector, 0), (DVector, 1), (IVector, 0)]"
          and st' = "snd (the (run ?ops example))" and sp = DVector]
      custom_index_stability [where ops = "[Add_custom ''q_extra2'' 1 0]" and st = ?sta
          and sp = DVector and flag = 1 and cols = 0 and index = 0
          and st_r = "the (remove_custom 0 1 0 ?sta)" and later = "[(DVector, 1)]"
          and st_e = "snd (the (run [Add_custom ''q_extra2'' 1 0] (the (remove_custom 0 1 0 ?sta))))"]
      r r' inv sp rm rm' q q'
    by simp
qed

text \<open>
  What \<open>remove_custom\<close> does to a slot in range, in each space: name and pointer are
  cleared, the lists keep their length, the counter and the views stay.  In the three
  spaces whose branch calls \<^verbatim>\<open>memory->destroy\<close> the heap is the heap after that call, so
  the block the slot pointed to is released; in the real-vector space the heap is as it
  was.
\<close>

lemma remove_custom_effect:
  assumes sp: "space_of flag cols = Some sp"
    and n: "in_range index (names sp st)" and p: "in_range index (slots sp st)"
  shows "\<exists>st'. remove_custom index flag cols st = Some st' \<and>
      names sp st' = (names sp st)[nat index := None] \<and>
      slots sp st' = (slots sp st)[nat index := None] \<and>
      counter sp st' = counter sp st \<and>
      views st' = views st \<and>
      heap st' = (if sp = DVector then heap st
                  else heap (memory_destroy (slots sp st ! nat index) st))"
proof (cases sp)
  case IVector
  with sp have "flag = 0 \<and> cols = 0"
    by (simp add: space_of_def split: if_splits)
  with IVector n p show ?thesis
    by (simp add: remove_custom_def Let_def)
next
  case DVector
  with sp have "flag = 1 \<and> cols = 0"
    by (simp add: space_of_def split: if_splits)
  with DVector n p show ?thesis
    by (simp add: remove_custom_def Let_def)
next
  case IArray
  with sp have "flag = 0 \<and> cols \<noteq> 0"
    by (simp add: space_of_def split: if_splits)
  with IArray n p show ?thesis
    by (simp add: remove_custom_def Let_def)
next
  case DArray
  with sp have "flag = 1 \<and> cols \<noteq> 0"
    by (simp add: space_of_def split: if_splits)
  with DArray n p show ?thesis
    by (simp add: remove_custom_def Let_def)
qed

lemma remove_custom_releases:
  assumes sp: "space_of flag cols = Some sp" and d: "sp \<noteq> DVector"
    and n: "in_range index (names sp st)" and p: "in_range index (slots sp st)"
    and a: "slots sp st ! nat index = Some a" and l: "a < length (heap st)"
  shows "\<exists>st'. remove_custom index flag cols st = Some st' \<and> heap st' ! a = None"
  using remove_custom_effect [OF sp n p] d a l by (auto simp add: memory_destroy_def)

text \<open>
  Claim C7.  The claim says that \<open>remove_custom\<close> frees the backing storage of the field
  in every one of the four spaces.  The code does not for a real vector.  On the small
  store, \<open>add_custom("q_extra", 1, 0)\<close> returns index 0 and gives the field row 0 of
  \<^verbatim>\<open>k_dvector\<close>, three cells on host and device; \<open>remove_custom(0, 1, 0)\<close> then nulls the
  pointer and the name, and the row is still there on both sides.  The sibling branch does
  free: \<open>add_custom("i_extra", 0, 0)\<close> allocates block 0 of the heap, and
  \<open>remove_custom(0, 0, 0)\<close> releases it.
\<close>

theorem remove_custom_real_vector_storage:
  "fst (add_custom ''q_extra'' 1 0 example) = Some 0 \<and>
   h_view (views (snd (add_custom ''q_extra'' 1 0 example)) K_dvector) = [[0, 0, 0]] \<and>
   d_view (views (snd (add_custom ''q_extra'' 1 0 example)) K_dvector) = [[0, 0, 0]] \<and>
   remove_custom 0 1 0 (snd (add_custom ''q_extra'' 1 0 example)) \<noteq> None \<and>
   dvector (the (remove_custom 0 1 0 (snd (add_custom ''q_extra'' 1 0 example)))) = [None] \<and>
   dvname (the (remove_custom 0 1 0 (snd (add_custom ''q_extra'' 1 0 example)))) = [None] \<and>
   h_view (views (the (remove_custom 0 1 0 (snd (add_custom ''q_extra'' 1 0 example)))) K_dvector)
     = [[0, 0, 0]] \<and>
   d_view (views (the (remove_custom 0 1 0 (snd (add_custom ''q_extra'' 1 0 example)))) K_dvector)
     = [[0, 0, 0]] \<and>
   fst (add_custom ''i_extra'' 0 0 example) = Some 0 \<and>
   ivector (snd (add_custom ''i_extra'' 0 0 example)) = [Some 0] \<and>
   heap (snd (add_custom ''i_extra'' 0 0 example)) = [Some [[None], [None], [None]]] \<and>
   remove_custom 0 0 0 (snd (add_custom ''i_extra'' 0 0 example)) \<noteq> None \<and>
   ivector (the (remove_custom 0 0 0 (snd (add_custom ''i_extra'' 0 0 example)))) = [None] \<and>
   heap (the (remove_custom 0 0 0 (snd (add_custom ''i_extra'' 0 0 example)))) = [None]"
proof -
  have q: "fst (add_custom ''q_extra'' 1 0 example) = Some 0 \<and>
      h_view (views (snd (add_custom ''q_extra'' 1 0 example)) K_dvector) = [[0, 0, 0]] \<and>
      d_view (views (snd (add_custom ''q_extra'' 1 0 example)) K_dvector) = [[0, 0, 0]] \<and>
      dvector (snd (add_custom ''q_extra'' 1 0 example)) = [Some 0] \<and>
      dvname (snd (add_custom ''q_extra'' 1 0 example)) = [Some ''q_extra'']"
    by (simp add: add_custom_def Let_def grow_kokkos_def srealloc_def row_pointers_def
          resize_buffer_def resize_row_def example_def sync_def modified_def avec_sync_def
          avec_modified_def in_group_def example_masks_def numeral_3_eq_3)
  have i: "fst (add_custom ''i_extra'' 0 0 example) = Some 0 \<and>
      ivector (snd (add_custom ''i_extra'' 0 0 example)) = [Some 0] \<and>
      ivname (snd (add_custom ''i_extra'' 0 0 example)) = [Some ''i_extra''] \<and>
      heap (snd (add_custom ''i_extra'' 0 0 example)) = [Some [[None], [None], [None]]]"
    by (simp add: add_custom_def memory_create_def Let_def srealloc_def create1_def
          example_def numeral_3_eq_3)
  have rq: "remove_custom 0 1 0 (snd (add_custom ''q_extra'' 1 0 example))
      = Some ((snd (add_custom ''q_extra'' 1 0 example))\<lparr>dvector := [None], dvname := [None]\<rparr>)"
    using q by (simp add: remove_custom_def in_range_def)
  have ri: "remove_custom 0 0 0 (snd (add_custom ''i_extra'' 0 0 example))
      = Some ((memory_destroy (Some 0) (snd (add_custom ''i_extra'' 0 0 example)))
               \<lparr>ivector := [None], ivname := [None]\<rparr>)"
    using i by (simp add: remove_custom_def in_range_def Let_def)
  show ?thesis
    using q i by (simp add: rq ri memory_destroy_def)
qed

section \<open>Properties of the capacity manager\<close>

text \<open>What \<open>sync\<close> and \<open>modified\<close> do to the view of one field.\<close>

lemma views_sync_Host:
  "views (sync Host m st) f =
     (if in_group st f m \<and> modified_device (views st f)
      then (views st f)\<lparr>h_view := d_view (views st f), modified_device := False\<rparr>
      else views st f)"
  by (simp add: sync_def avec_sync_def)

lemma views_sync_Device:
  "views (sync Device m st) f =
     (if in_group st f m \<and> (auto_sync st \<or> modified_host (views st f))
      then (views st f)\<lparr>d_view := h_view (views st f), modified_host := False\<rparr>
      else views st f)"
  by (simp add: sync_def avec_sync_def avec_modified_def in_group_def Let_def)

lemma views_modified_Host:
  "views (modified Host m st) f =
     (if in_group st f m then (views st f)\<lparr>modified_host := True\<rparr> else views st f)"
  by (simp add: modified_def avec_modified_def)

lemma views_modified_Device:
  "views (modified Device m st) f =
     (if in_group st f m
      then (if auto_sync st
            then (views st f)\<lparr>h_view := d_view (views st f), modified_device := False\<rparr>
            else (views st f)\<lparr>modified_device := True\<rparr>)
      else views st f)"
  by (simp add: modified_def avec_sync_def avec_modified_def in_group_def Let_def)

lemma sync_both:
  "h_view (views st f) = X \<Longrightarrow> d_view (views st f) = X \<Longrightarrow>
   h_view (views (sync space m st) f) = X \<and> d_view (views (sync space m st) f) = X"
  by (cases space) (simp_all add: views_sync_Host views_sync_Device)

lemma modified_both:
  "h_view (views st f) = X \<Longrightarrow> d_view (views st f) = X \<Longrightarrow>
   h_view (views (modified space m st) f) = X \<and> d_view (views (modified space m st) f) = X"
  by (cases space) (simp_all add: views_modified_Host views_modified_Device)

lemma resize_buffer_Nil [simp]: "resize_buffer n1 n2 [] = replicate n1 (replicate n2 0)"
  by (simp add: resize_buffer_def)

lemma grow_special_views:
  assumes "m AND SPECIAL_MASK (masks st) \<noteq> 0"
  shows "h_view (views (grow m st) K_special) = replicate (nmax st) (replicate (maxspecial st) 0) \<and>
         d_view (views (grow m st) K_special) = replicate (nmax st) (replicate (maxspecial st) 0)"
proof -
  define st1 where "st1 = destroy_kokkos K_special st"
  define st2 where "st2 = sync Device m st1"
  define st3 where "st3 = modified Device m st2"
  define st4 where "st4 = grow_kokkos K_special (nmax st3) (maxspecial st3) st3"
  define st5 where "st5 = grow_pointers st4"
  have g: "grow m st = sync Host m st5"
    using assms by (simp add: grow_def Let_def st1_def st2_def st3_def st4_def st5_def)
  have n: "nmax st3 = nmax st" "maxspecial st3 = maxspecial st"
    by (simp_all add: st3_def st2_def st1_def destroy_kokkos_def)
  have "h_view (views st1 K_special) = [] \<and> d_view (views st1 K_special) = []"
    by (simp add: st1_def destroy_kokkos_def)
  then have "h_view (views st2 K_special) = [] \<and> d_view (views st2 K_special) = []"
    unfolding st2_def using sync_both by blast
  then have "h_view (views st3 K_special) = [] \<and> d_view (views st3 K_special) = []"
    unfolding st3_def using modified_both by blast
  then have "h_view (views st5 K_special) = replicate (nmax st) (replicate (maxspecial st) 0) \<and>
             d_view (views st5 K_special) = replicate (nmax st) (replicate (maxspecial st) 0)"
    by (simp add: st5_def st4_def grow_pointers_def grow_kokkos_def n)
  then show ?thesis
    unfolding g using sync_both by blast
qed

lemma grow_calls:
  "m AND SPECIAL_MASK (masks st) \<noteq> 0 \<Longrightarrow>
   grow_pointers_calls (grow m st) = Suc (grow_pointers_calls st)"
  by (simp add: grow_def Let_def grow_pointers_def grow_kokkos_def destroy_kokkos_def)

text \<open>
  Claim C3, as amended.  \<open>grow(G)\<close> acts only when \<open>G\<close> contains the special-bonds
  group.  Then the storage of the special-bonds field is released and allocated anew:
  host and device buffer have \<open>nmax\<close> rows of \<open>maxspecial\<close> columns, every row in the
  default state (zero), and the layout collaborator is notified once.  For any other group
  \<open>grow\<close> does nothing.
\<close>

theorem grow_special:
  "(m AND SPECIAL_MASK (masks st) = 0 \<longrightarrow> grow m st = st) \<and>
   (m AND SPECIAL_MASK (masks st) \<noteq> 0 \<longrightarrow>
      h_view (views (grow m st) K_special) = replicate (nmax st) (replicate (maxspecial st) 0) \<and>
      d_view (views (grow m st) K_special) = replicate (nmax st) (replicate (maxspecial st) 0) \<and>
      grow_pointers_calls (grow m st) = Suc (grow_pointers_calls st))"
  using grow_special_views [of m st] grow_calls [of m st] by (simp add: grow_def)


lemma replicate_5: "replicate 5 x = [x, x, x, x, x]"
  by (simp add: eval_nat_numeral)

lemma example5_special: "(0x4000 :: mask) AND SPECIAL_MASK (masks (example\<lparr>nmax := 5\<rparr>)) \<noteq> 0"
  by (simp add: example_def example_masks_def)

lemma example5_x: "(0x1 :: mask) AND SPECIAL_MASK (masks (example\<lparr>nmax := 5\<rparr>)) = 0"
  by (simp add: example_def example_masks_def)

text \<open>
  Claim C3 as stated fails on the small store with \<open>nmax\<close> raised to 5.  The field
  \<^verbatim>\<open>x\<close> is in the group \<open>0x1\<close> and has capacity 3, below \<open>nmax\<close>; \<open>grow(0x1)\<close> leaves both
  its buffers at 3 rows and notifies nobody.  The special-bonds field is in the group
  \<open>0x4000\<close>; \<open>grow(0x4000)\<close> gives it 5 rows, but rows 0 to 2 are not what they were.
\<close>

theorem grow_counterexample:
  "in_group (example\<lparr>nmax := 5\<rparr>) K_x 0x1 \<and>
   length (h_view (views (example\<lparr>nmax := 5\<rparr>) K_x)) = 3 \<and>
   length (h_view (views (grow 0x1 (example\<lparr>nmax := 5\<rparr>)) K_x)) = 3 \<and>
   length (d_view (views (grow 0x1 (example\<lparr>nmax := 5\<rparr>)) K_x)) = 3 \<and>
   grow_pointers_calls (grow 0x1 (example\<lparr>nmax := 5\<rparr>)) = 0 \<and>
   in_group (example\<lparr>nmax := 5\<rparr>) K_special 0x4000 \<and>
   h_view (views (example\<lparr>nmax := 5\<rparr>) K_special) = [[7], [8], [9]] \<and>
   h_view (views (grow 0x4000 (example\<lparr>nmax := 5\<rparr>)) K_special) = [[0], [0], [0], [0], [0]]"
proof -
  have a: "grow 0x1 (example\<lparr>nmax := 5\<rparr>) = example\<lparr>nmax := 5\<rparr>"
    using example5_x by (simp add: grow_def)
  have b: "h_view (views (grow 0x4000 (example\<lparr>nmax := 5\<rparr>)) K_special)
      = replicate (nmax (example\<lparr>nmax := 5\<rparr>)) (replicate (maxspecial (example\<lparr>nmax := 5\<rparr>)) 0)"
    using grow_special_views [OF example5_special] by blast
  have c: "replicate (nmax (example\<lparr>nmax := 5\<rparr>)) (replicate (maxspecial (example\<lparr>nmax := 5\<rparr>)) (0::int))
      = [[0], [0], [0], [0], [0]]"
    by (simp add: example_def replicate_5)
  show ?thesis
    unfolding a b c by (simp add: in_group_def example_def)
qed

theorem grow_special_witness:
  "(0x1 :: mask) AND SPECIAL_MASK (masks (example\<lparr>nmax := 5\<rparr>)) = 0 \<and>
   grow 0x1 (example\<lparr>nmax := 5\<rparr>) = example\<lparr>nmax := 5\<rparr> \<and>
   (0x4000 :: mask) AND SPECIAL_MASK (masks (example\<lparr>nmax := 5\<rparr>)) \<noteq> 0 \<and>
   d_view (views (grow 0x4000 (example\<lparr>nmax := 5\<rparr>)) K_special) = [[0], [0], [0], [0], [0]] \<and>
   grow_pointers_calls (grow 0x4000 (example\<lparr>nmax := 5\<rparr>)) = 1"
proof -
  have c: "replicate (nmax (example\<lparr>nmax := 5\<rparr>)) (replicate (maxspecial (example\<lparr>nmax := 5\<rparr>)) (0::int))
      = [[0], [0], [0], [0], [0]]"
    by (simp add: example_def replicate_5)
  have d: "grow_pointers_calls (example\<lparr>nmax := 5\<rparr>) = 0"
    by (simp add: example_def)
  show ?thesis
    using grow_special [of "0x1" "example\<lparr>nmax := 5\<rparr>"]
          grow_special [of "0x4000" "example\<lparr>nmax := 5\<rparr>"]
          example5_x example5_special
    unfolding c d by simp
qed

section \<open>Properties of the spatial sort engine\<close>

lemma sort_setup_frame:
  "sort_setup st = Some st1 \<Longrightarrow>
   views st1 = views st \<and> extra_grow st1 = extra_grow st \<and> nlocal st1 = nlocal st \<and>
   masks st1 = masks st \<and> field_mask st1 = field_mask st \<and> per_atom st1 = per_atom st \<and>
   auto_sync st1 = auto_sync st \<and> triclinic st1 = triclinic st \<and>
   lamda2x_row st1 = lamda2x_row st \<and> x2lamda_row st1 = x2lamda_row st \<and>
   sort_classic st1 = sort_classic st \<and> warnings st1 = warnings st \<and> me st1 = me st \<and>
   sortfreq st1 = sortfreq st \<and> nmax st1 = nmax st"
  by (auto simp add: sort_setup_def set_nextsort_def setup_sort_bins_def
        split: if_splits prod.splits)


lemma sort_setup_Some: "sortfreq st \<noteq> 0 \<Longrightarrow> \<exists>st1. sort_setup st = Some st1"
  by (simp add: sort_setup_def set_nextsort_def)




lemma sort_check_0: "\<exists>fx\<in>set fxs. \<not> fix_sort_device fx \<Longrightarrow> sort_check fxs = 0"
  by (induction fxs) auto

lemma sort_fallback_classic: "sort_classic st \<Longrightarrow> sort_fallback st = st"
  by (simp add: sort_fallback_def)

lemma sort_fallback_switch:
  "\<not> sort_classic st \<Longrightarrow> \<exists>fx\<in>set (extra_grow st). \<not> fix_sort_device fx \<Longrightarrow>
   sort_fallback st =
     (if me st = 0 then st\<lparr>warnings := warnings st @ [sort_warning]\<rparr> else st)\<lparr>sort_classic := True\<rparr>"
  by (simp add: sort_fallback_def sort_check_0 Let_def)

lemma Atom_sort_frame:
  assumes "sortfreq st \<noteq> 0"
  shows "\<exists>st'. Atom_sort st = Some st' \<and> sort_classic st' = sort_classic st \<and>
     warnings st' = warnings st \<and> me st' = me st \<and> sortfreq st' = sortfreq st \<and>
     masks st' = masks st"
proof -
  from sort_setup_Some [OF assms] obtain st1 where s: "sort_setup st = Some st1"
    by blast
  from sort_setup_frame [OF s] s show ?thesis
    by (simp add: Atom_sort_def Let_def sort_blocks_def)
qed

lemma sort_host_frame:
  assumes "sortfreq st \<noteq> 0"
  shows "\<exists>st'. sort_host st = Some st' \<and> sort_classic st' = sort_classic st \<and>
     warnings st' = warnings st \<and> me st' = me st \<and> sortfreq st' = sortfreq st"
proof -
  have "sortfreq (sync Host (ALL_MASK (masks st)) st) \<noteq> 0"
    using assms by simp
  from Atom_sort_frame [OF this] obtain st1 where
    "Atom_sort (sync Host (ALL_MASK (masks st)) st) = Some st1"
    "sort_classic st1 = sort_classic st" "warnings st1 = warnings st" "me st1 = me st"
    "sortfreq st1 = sortfreq st"
    by auto
  then show ?thesis
    by (simp add: sort_host_def)
qed

lemma sort_classic_host: "sort_classic st \<Longrightarrow> sort st = sort_host st"
  by (simp add: sort_def sort_fallback_classic Let_def)

lemma sort_cycles_classic:
  "sort_classic st \<Longrightarrow> sortfreq st \<noteq> 0 \<Longrightarrow>
   \<exists>st'. sort_cycles n st = Some st' \<and> sort_classic st' \<and> warnings st' = warnings st \<and>
         sortfreq st' \<noteq> 0"
proof (induction n arbitrary: st)
  case 0
  then show ?case by simp
next
  case (Suc n)
  from sort_host_frame [OF Suc.prems(2)] obtain st1 where
    h: "sort_host st = Some st1" "sort_classic st1 = sort_classic st"
       "warnings st1 = warnings st" "sortfreq st1 = sortfreq st"
    by blast
  with Suc.prems have "sort_classic st1" "sortfreq st1 \<noteq> 0"
    by simp_all
  from Suc.IH [OF this] h Suc.prems show ?case
    by (simp add: sort_classic_host)
qed

text \<open>
  Claim C4.  When a sort is attempted on the device path while some extension with
  per-record data does not declare device-reorder support, that cycle takes the host path
  (\<open>sort_host\<close>); so does the cycle after any number of further cycles, the device path
  is never tried again; and over all these cycles the warning is printed exactly once, by
  the process of rank 0 (no other process prints it).
\<close>

theorem sort_fallback_sticks:
  assumes c: "\<not> sort_classic st"
    and x: "\<exists>fx\<in>set (extra_grow st). \<not> fix_sort_device fx"
    and f: "sortfreq st \<noteq> 0"
  shows "sort_classic (sort_fallback st) \<and>
     sort st = sort_host (sort_fallback st) \<and>
     (\<exists>st'. sort_cycles (Suc n) st = Some st' \<and> sort_classic st' \<and>
            sort st' = sort_host st' \<and>
            warnings st' = warnings st @ (if me st = 0 then [sort_warning] else []))"
proof -
  let ?st0 = "sort_fallback st"
  have c0: "sort_classic ?st0" and f0: "sortfreq ?st0 \<noteq> 0"
    and w0: "warnings ?st0 = warnings st @ (if me st = 0 then [sort_warning] else [])"
    using f by (simp_all add: sort_fallback_switch [OF c x])
  have s: "sort st = sort_host ?st0"
    using c0 by (simp add: sort_def Let_def)
  from sort_host_frame [OF f0] obtain st1 where
    h: "sort_host ?st0 = Some st1" "sort_classic st1 = sort_classic ?st0"
       "warnings st1 = warnings ?st0" "sortfreq st1 = sortfreq ?st0"
    by blast
  with c0 f0 have "sort_classic st1" "sortfreq st1 \<noteq> 0"
    by simp_all
  from sort_cycles_classic [OF this, of n] obtain st' where
    "sort_cycles n st1 = Some st'" "sort_classic st'" "warnings st' = warnings st1"
    by blast
  with s h c0 w0 show ?thesis
    by (simp add: sort_classic_host)
qed

theorem sort_fallback_sticks_witness:
  "\<not> sort_classic example_plain_fix \<and>
   \<not> fix_sort_device (hd (extra_grow example_plain_fix)) \<and>
   sortfreq example_plain_fix \<noteq> 0 \<and>
   warnings (sort_fallback example_plain_fix) = [sort_warning] \<and>
   sort example_plain_fix = sort_host (sort_fallback example_plain_fix) \<and>
   (\<exists>st'. sort_cycles 3 example_plain_fix = Some st' \<and> sort_classic st' \<and>
          sort st' = sort_host st' \<and> warnings st' = [sort_warning])"
proof -
  have c: "\<not> sort_classic example_plain_fix" and f: "sortfreq example_plain_fix \<noteq> 0"
    and m: "me example_plain_fix = 0" "warnings example_plain_fix = []"
    by (simp_all add: example_plain_fix_def example_def)
  have h: "\<not> fix_sort_device (hd (extra_grow example_plain_fix))"
    and e: "extra_grow example_plain_fix \<noteq> []"
    by (simp_all add: example_plain_fix_def)
  then have x: "\<exists>fx\<in>set (extra_grow example_plain_fix). \<not> fix_sort_device fx"
    using hd_in_set by blast
  have w: "warnings (sort_fallback example_plain_fix) = [sort_warning]"
    by (simp add: sort_fallback_switch [OF c x] m)
  have three: "(3::nat) = Suc 2"
    by simp
  show ?thesis
    using sort_fallback_sticks [OF c x f, of 2] c f h w m
    unfolding three [symmetric] by simp
qed

text \<open>The composite operations of the sort change the views, or the heap, and nothing else.\<close>

lemma device_update_frame [simp]:
  "masks (device_update f G g st) = masks st"
  "field_mask (device_update f G g st) = field_mask st"
  "per_atom (device_update f G g st) = per_atom st"
  "auto_sync (device_update f G g st) = auto_sync st"
  "kokkos_sort_classic (device_update f G g st) = kokkos_sort_classic st"
  "sort_classic (device_update f G g st) = sort_classic st"
  "nlocal (device_update f G g st) = nlocal st"
  "nmax (device_update f G g st) = nmax st"
  "maxspecial (device_update f G g st) = maxspecial st"
  "nbins (device_update f G g st) = nbins st"
  "nbinx (device_update f G g st) = nbinx st"
  "nbiny (device_update f G g st) = nbiny st"
  "nbinz (device_update f G g st) = nbinz st"
  "nextsort (device_update f G g st) = nextsort st"
  "ntimestep (device_update f G g st) = ntimestep st"
  "sortfreq (device_update f G g st) = sortfreq st"
  "box_change (device_update f G g st) = box_change st"
  "triclinic (device_update f G g st) = triclinic st"
  "domain_bins (device_update f G g st) = domain_bins st"
  "lamda2x_row (device_update f G g st) = lamda2x_row st"
  "x2lamda_row (device_update f G g st) = x2lamda_row st"
  "bin_of (device_update f G g st) = bin_of st"
  "extra_grow (device_update f G g st) = extra_grow st"
  "me (device_update f G g st) = me st"
  "warnings (device_update f G g st) = warnings st"
  "grow_pointers_calls (device_update f G g st) = grow_pointers_calls st"
  "heap (device_update f G g st) = heap st"
  "nivector (device_update f G g st) = nivector st"
  "ivname (device_update f G g st) = ivname st"
  "ivector (device_update f G g st) = ivector st"
  "ndvector (device_update f G g st) = ndvector st"
  "dvname (device_update f G g st) = dvname st"
  "dvector (device_update f G g st) = dvector st"
  "niarray (device_update f G g st) = niarray st"
  "ianame (device_update f G g st) = ianame st"
  "iarray (device_update f G g st) = iarray st"
  "icols (device_update f G g st) = icols st"
  "ndarray (device_update f G g st) = ndarray st"
  "daname (device_update f G g st) = daname st"
  "darray (device_update f G g st) = darray st"
  "dcols (device_update f G g st) = dcols st"
  by (simp_all add: device_update_def Let_def)

lemma avec_sort_kokkos_frame [simp]:
  "masks (avec_sort_kokkos p st) = masks st"
  "field_mask (avec_sort_kokkos p st) = field_mask st"
  "per_atom (avec_sort_kokkos p st) = per_atom st"
  "auto_sync (avec_sort_kokkos p st) = auto_sync st"
  "kokkos_sort_classic (avec_sort_kokkos p st) = kokkos_sort_classic st"
  "sort_classic (avec_sort_kokkos p st) = sort_classic st"
  "nlocal (avec_sort_kokkos p st) = nlocal st"
  "nmax (avec_sort_kokkos p st) = nmax st"
  "maxspecial (avec_sort_kokkos p st) = maxspecial st"
  "nbins (avec_sort_kokkos p st) = nbins st"
  "nbinx (avec_sort_kokkos p st) = nbinx st"
  "nbiny (avec_sort_kokkos p st) = nbiny st"
  "nbinz (avec_sort_kokkos p st) = nbinz st"
  "nextsort (avec_sort_kokkos p st) = nextsort st"
  "ntimestep (avec_sort_kokkos p st) = ntimestep st"
  "sortfreq (avec_sort_kokkos p st) = sortfreq st"
  "box_change (avec_sort_kokkos p st) = box_change st"
  "triclinic (avec_sort_kokkos p st) = triclinic st"
  "domain_bins (avec_sort_kokkos p st) = domain_bins st"
  "lamda2x_row (avec_sort_kokkos p st) = lamda2x_row st"
  "x2lamda_row (avec_sort_kokkos p st) = x2lamda_row st"
  "bin_of (avec_sort_kokkos p st) = bin_of st"
  "extra_grow (avec_sort_kokkos p st) = extra_grow st"
  "me (avec_sort_kokkos p st) = me st"
  "warnings (avec_sort_kokkos p st) = warnings st"
  "grow_pointers_calls (avec_sort_kokkos p st) = grow_pointers_calls st"
  "heap (avec_sort_kokkos p st) = heap st"
  "nivector (avec_sort_kokkos p st) = nivector st"
  "ivname (avec_sort_kokkos p st) = ivname st"
  "ivector (avec_sort_kokkos p st) = ivector st"
  "ndvector (avec_sort_kokkos p st) = ndvector st"
  "dvname (avec_sort_kokkos p st) = dvname st"
  "dvector (avec_sort_kokkos p st) = dvector st"
  "niarray (avec_sort_kokkos p st) = niarray st"
  "ianame (avec_sort_kokkos p st) = ianame st"
  "iarray (avec_sort_kokkos p st) = iarray st"
  "icols (avec_sort_kokkos p st) = icols st"
  "ndarray (avec_sort_kokkos p st) = ndarray st"
  "daname (avec_sort_kokkos p st) = daname st"
  "darray (avec_sort_kokkos p st) = darray st"
  "dcols (avec_sort_kokkos p st) = dcols st"
  by (simp_all add: avec_sort_kokkos_def Let_def)

lemma sort_blocks_frame [simp]:
  "masks (sort_blocks p as st) = masks st"
  "field_mask (sort_blocks p as st) = field_mask st"
  "per_atom (sort_blocks p as st) = per_atom st"
  "auto_sync (sort_blocks p as st) = auto_sync st"
  "kokkos_sort_classic (sort_blocks p as st) = kokkos_sort_classic st"
  "sort_classic (sort_blocks p as st) = sort_classic st"
  "nlocal (sort_blocks p as st) = nlocal st"
  "nmax (sort_blocks p as st) = nmax st"
  "maxspecial (sort_blocks p as st) = maxspecial st"
  "nbins (sort_blocks p as st) = nbins st"
  "nbinx (sort_blocks p as st) = nbinx st"
  "nbiny (sort_blocks p as st) = nbiny st"
  "nbinz (sort_blocks p as st) = nbinz st"
  "nextsort (sort_blocks p as st) = nextsort st"
  "ntimestep (sort_blocks p as st) = ntimestep st"
  "sortfreq (sort_blocks p as st) = sortfreq st"
  "box_change (sort_blocks p as st) = box_change st"
  "triclinic (sort_blocks p as st) = triclinic st"
  "domain_bins (sort_blocks p as st) = domain_bins st"
  "lamda2x_row (sort_blocks p as st) = lamda2x_row st"
  "x2lamda_row (sort_blocks p as st) = x2lamda_row st"
  "bin_of (sort_blocks p as st) = bin_of st"
  "extra_grow (sort_blocks p as st) = extra_grow st"
  "me (sort_blocks p as st) = me st"
  "warnings (sort_blocks p as st) = warnings st"
  "grow_pointers_calls (sort_blocks p as st) = grow_pointers_calls st"
  "nivector (sort_blocks p as st) = nivector st"
  "ivname (sort_blocks p as st) = ivname st"
  "ivector (sort_blocks p as st) = ivector st"
  "ndvector (sort_blocks p as st) = ndvector st"
  "dvname (sort_blocks p as st) = dvname st"
  "dvector (sort_blocks p as st) = dvector st"
  "niarray (sort_blocks p as st) = niarray st"
  "ianame (sort_blocks p as st) = ianame st"
  "iarray (sort_blocks p as st) = iarray st"
  "icols (sort_blocks p as st) = icols st"
  "ndarray (sort_blocks p as st) = ndarray st"
  "daname (sort_blocks p as st) = daname st"
  "darray (sort_blocks p as st) = darray st"
  "dcols (sort_blocks p as st) = dcols st"
  by (simp_all add: sort_blocks_def)

lemma convert_x_frame [simp]:
  "nlocal (convert_x g n st) = nlocal st"
  "masks (convert_x g n st) = masks st"
  "field_mask (convert_x g n st) = field_mask st"
  "per_atom (convert_x g n st) = per_atom st"
  "auto_sync (convert_x g n st) = auto_sync st"
  "triclinic (convert_x g n st) = triclinic st"
  "extra_grow (convert_x g n st) = extra_grow st"
  "lamda2x_row (convert_x g n st) = lamda2x_row st"
  "x2lamda_row (convert_x g n st) = x2lamda_row st"
  "bin_of (convert_x g n st) = bin_of st"
  "heap (convert_x g n st) = heap st"
  "slots sp (convert_x g n st) = slots sp st"
  by (cases sp; simp add: convert_x_def)+

lemma views_sort_blocks [simp]: "views (sort_blocks p as st) = views st"
  by (simp add: sort_blocks_def)

lemma slots_frame [simp]:
  "slots sp (sync space m st) = slots sp st"
  "slots sp (modified space m st) = slots sp st"
  "slots sp (device_update f G g st) = slots sp st"
  "slots sp (avec_sort_kokkos p st) = slots sp st"
  "slots sp (sort_blocks p as st) = slots sp st"
  "slots sp (st\<lparr>extra_grow := fxs\<rparr>) = slots sp st"
  by (cases sp; simp)+

lemma in_group_frame [simp]:
  "in_group (device_update f G g st) f' m = in_group st f' m"
  "in_group (avec_sort_kokkos p st) f' m = in_group st f' m"
  "in_group (sort_blocks p as st) f' m = in_group st f' m"
  "in_group (convert_x c n st) f' m = in_group st f' m"
  "in_group (st\<lparr>extra_grow := fxs\<rparr>) f' m = in_group st f' m"
  by (simp_all add: in_group_def)

text \<open>Lists: applying at positions, permuting, mapping a prefix.\<close>

lemma length_apply_at [simp]: "length (apply_at g as xs) = length xs"
  by (simp add: apply_at_def)

lemma apply_at_nth:
  "a < length xs \<Longrightarrow> apply_at g as xs ! a = (if a \<in> set as then g (xs ! a) else xs ! a)"
  by (simp add: apply_at_def)

lemma apply_at_Nil [simp]: "apply_at g [] xs = xs"
  by (rule nth_equalityI) (simp_all add: apply_at_nth)








lemma device_holds_sync_Device:
  "device_holds st f X \<Longrightarrow> device_holds (sync Device m st) f X"
  by (simp add: device_holds_def views_sync_Device)

lemma device_holds_modified_Device:
  "device_holds st f X \<Longrightarrow> device_holds (modified Device m st) f X"
  by (simp add: device_holds_def views_modified_Device)







lemma device_holds_extra_grow [simp]:
  "device_holds (st\<lparr>extra_grow := fxs\<rparr>) f X = device_holds st f X"
  by (simp add: device_holds_def)

lemma device_holds_sort_blocks [simp]:
  "device_holds (sort_blocks p as st) f X = device_holds st f X"
  by (simp add: device_holds_def sort_blocks_def)

lemma device_value_sort_blocks [simp]:
  "device_value (sort_blocks p as st) f = device_value st f"
  by (simp add: device_value_def sort_blocks_def)


lemma slot_at_cong: "(\<And>sp. slots sp s' = slots sp s) \<Longrightarrow> slot_at sp s' j = slot_at sp s j"
  by (simp add: slot_at_def)


lemma fix_rows_cong:
  assumes "\<And>sp. slots sp s' = slots sp s"
  shows "fix_rows s' fx = fix_rows s fx"
proof -
  have "slot_at sp s' j = slot_at sp s j" for sp j
    using assms by (rule slot_at_cong)
  then show ?thesis
    by (simp add: fix_rows_def cong: if_cong)
qed

lemma fix_rows_sort_blocks [simp]: "fix_rows (sort_blocks p as st) fx = fix_rows st fx"
  by (rule fix_rows_cong) simp

lemma fix_step_frame [simp]:
  "masks (fix_step p fx st) = masks st"
  "field_mask (fix_step p fx st) = field_mask st"
  "per_atom (fix_step p fx st) = per_atom st"
  "auto_sync (fix_step p fx st) = auto_sync st"
  "kokkos_sort_classic (fix_step p fx st) = kokkos_sort_classic st"
  "sort_classic (fix_step p fx st) = sort_classic st"
  "nlocal (fix_step p fx st) = nlocal st"
  "nmax (fix_step p fx st) = nmax st"
  "maxspecial (fix_step p fx st) = maxspecial st"
  "nbins (fix_step p fx st) = nbins st"
  "nbinx (fix_step p fx st) = nbinx st"
  "nbiny (fix_step p fx st) = nbiny st"
  "nbinz (fix_step p fx st) = nbinz st"
  "nextsort (fix_step p fx st) = nextsort st"
  "ntimestep (fix_step p fx st) = ntimestep st"
  "sortfreq (fix_step p fx st) = sortfreq st"
  "box_change (fix_step p fx st) = box_change st"
  "triclinic (fix_step p fx st) = triclinic st"
  "domain_bins (fix_step p fx st) = domain_bins st"
  "lamda2x_row (fix_step p fx st) = lamda2x_row st"
  "x2lamda_row (fix_step p fx st) = x2lamda_row st"
  "bin_of (fix_step p fx st) = bin_of st"
  "extra_grow (fix_step p fx st) = extra_grow st"
  "me (fix_step p fx st) = me st"
  "warnings (fix_step p fx st) = warnings st"
  "grow_pointers_calls (fix_step p fx st) = grow_pointers_calls st"
  "nivector (fix_step p fx st) = nivector st"
  "ivname (fix_step p fx st) = ivname st"
  "ivector (fix_step p fx st) = ivector st"
  "ndvector (fix_step p fx st) = ndvector st"
  "dvname (fix_step p fx st) = dvname st"
  "dvector (fix_step p fx st) = dvector st"
  "niarray (fix_step p fx st) = niarray st"
  "ianame (fix_step p fx st) = ianame st"
  "iarray (fix_step p fx st) = iarray st"
  "icols (fix_step p fx st) = icols st"
  "ndarray (fix_step p fx st) = ndarray st"
  "daname (fix_step p fx st) = daname st"
  "darray (fix_step p fx st) = darray st"
  "dcols (fix_step p fx st) = dcols st"
  by (simp_all add: fix_step_def fix_sort_kokkos_def Let_def)

lemma slots_fix_step [simp]: "slots sp (fix_step p fx st) = slots sp st"
  by (cases sp) simp_all

lemma in_group_fix_step [simp]: "in_group (fix_step p fx st) f m = in_group st f m"
  by (simp add: in_group_def)







lemma fixes_state_frame [simp]:
  "slots sp (fixes_state p fxs st) = slots sp st"
  "masks (fixes_state p fxs st) = masks st"
  "field_mask (fixes_state p fxs st) = field_mask st"
  "per_atom (fixes_state p fxs st) = per_atom st"
  "auto_sync (fixes_state p fxs st) = auto_sync st"
  "nlocal (fixes_state p fxs st) = nlocal st"
  "triclinic (fixes_state p fxs st) = triclinic st"
  "x2lamda_row (fixes_state p fxs st) = x2lamda_row st"
  "extra_grow (fixes_state p fxs st) = extra_grow st"
  by (induction fxs arbitrary: st; simp add: fixes_state_def)+

lemma in_group_fixes_state [simp]: "in_group (fixes_state p fxs st) f m = in_group st f m"
  by (simp add: in_group_def)





text \<open>The sorters are permutations of the range.\<close>

lemma length_Sorter [simp]: "length (Sorter st) = nlocal st"
  by (simp add: Sorter_def create_permute_vector_def)

lemma set_Sorter [simp]: "set (Sorter st) = {..<nlocal st}"
  by (auto simp add: Sorter_def create_permute_vector_def)

lemma distinct_Sorter [simp]: "distinct (Sorter st)"
  by (simp add: Sorter_def create_permute_vector_def)



lemma length_Atom_sorter [simp]: "length (Atom_sorter st) = nlocal st"
  by (simp add: Atom_sorter_def create_permute_vector_def)

lemma set_Atom_sorter [simp]: "set (Atom_sorter st) = {..<nlocal st}"
  by (auto simp add: Atom_sorter_def create_permute_vector_def)

lemma distinct_Atom_sorter [simp]: "distinct (Atom_sorter st)"
  by (simp add: Atom_sorter_def create_permute_vector_def)


text \<open>The steps of the device sort around the reordering.\<close>

lemma sort_device_keys_frame [simp]:
  "masks (sort_device_keys st) = masks st"
  "field_mask (sort_device_keys st) = field_mask st"
  "per_atom (sort_device_keys st) = per_atom st"
  "auto_sync (sort_device_keys st) = auto_sync st"
  "kokkos_sort_classic (sort_device_keys st) = kokkos_sort_classic st"
  "sort_classic (sort_device_keys st) = sort_classic st"
  "nlocal (sort_device_keys st) = nlocal st"
  "nmax (sort_device_keys st) = nmax st"
  "maxspecial (sort_device_keys st) = maxspecial st"
  "nbins (sort_device_keys st) = nbins st"
  "nbinx (sort_device_keys st) = nbinx st"
  "nbiny (sort_device_keys st) = nbiny st"
  "nbinz (sort_device_keys st) = nbinz st"
  "nextsort (sort_device_keys st) = nextsort st"
  "ntimestep (sort_device_keys st) = ntimestep st"
  "sortfreq (sort_device_keys st) = sortfreq st"
  "box_change (sort_device_keys st) = box_change st"
  "triclinic (sort_device_keys st) = triclinic st"
  "domain_bins (sort_device_keys st) = domain_bins st"
  "lamda2x_row (sort_device_keys st) = lamda2x_row st"
  "x2lamda_row (sort_device_keys st) = x2lamda_row st"
  "bin_of (sort_device_keys st) = bin_of st"
  "extra_grow (sort_device_keys st) = extra_grow st"
  "me (sort_device_keys st) = me st"
  "warnings (sort_device_keys st) = warnings st"
  "grow_pointers_calls (sort_device_keys st) = grow_pointers_calls st"
  "heap (sort_device_keys st) = heap st"
  "nivector (sort_device_keys st) = nivector st"
  "ivname (sort_device_keys st) = ivname st"
  "ivector (sort_device_keys st) = ivector st"
  "ndvector (sort_device_keys st) = ndvector st"
  "dvname (sort_device_keys st) = dvname st"
  "dvector (sort_device_keys st) = dvector st"
  "niarray (sort_device_keys st) = niarray st"
  "ianame (sort_device_keys st) = ianame st"
  "iarray (sort_device_keys st) = iarray st"
  "icols (sort_device_keys st) = icols st"
  "ndarray (sort_device_keys st) = ndarray st"
  "daname (sort_device_keys st) = daname st"
  "darray (sort_device_keys st) = darray st"
  "dcols (sort_device_keys st) = dcols st"
  by (simp_all add: sort_device_keys_def Let_def lamda2x_def convert_x_def)

lemma slots_sort_device_keys [simp]: "slots sp (sort_device_keys st) = slots sp st"
  by (cases sp) simp_all

lemma in_group_sort_device_keys [simp]: "in_group (sort_device_keys st) f m = in_group st f m"
  by (simp add: in_group_def)

lemma slots_extra_grow [simp]: "slots sp (st\<lparr>extra_grow := fxs\<rparr>) = slots sp st"
  by (cases sp) simp_all

lemma device_value_extra_grow [simp]:
  "device_value (st\<lparr>extra_grow := fxs\<rparr>) f = device_value st f"
  by (simp add: device_value_def)

























end
